theory Spec2Isabelle
  imports Complex_Main
begin

section \<open>JavaScript values\<close>

text \<open>
  The sources pass untyped documents around (\<^verbatim>\<open>Record<string, any>\<close>, \<^verbatim>\<open>any\<close>). They are
  modelled by a small universe of JSON-like values. An object is an association list
  of its own properties; a property that is not there reads as \<open>JUndefined\<close>.
\<close>

datatype json = JUndefined | JNull | JBool bool | JNum int | JStr string
  | JObj "(string \<times> json) list"

text \<open>Truthiness, as \<^verbatim>\<open>if (v)\<close>, \<^verbatim>\<open>a && b\<close> and \<^verbatim>\<open>a || b\<close> test it.\<close>

fun truthy :: "json \<Rightarrow> bool" where
  "truthy JUndefined = False"
| "truthy JNull = False"
| "truthy (JBool b) = b"
| "truthy (JNum n) = (n \<noteq> 0)"
| "truthy (JStr s) = (s \<noteq> [])"
| "truthy (JObj kvs) = True"

fun obj_get :: "string \<Rightarrow> (string \<times> json) list \<Rightarrow> json" where
  "obj_get k [] = JUndefined"
| "obj_get k ((k', v) # kvs) = (if k = k' then v else obj_get k kvs)"

fun obj_delete :: "string \<Rightarrow> (string \<times> json) list \<Rightarrow> (string \<times> json) list" where
  "obj_delete k [] = []"
| "obj_delete k ((k', v) # kvs) = (if k = k' then obj_delete k kvs else (k', v) # obj_delete k kvs)"

fun obj_set :: "string \<Rightarrow> json \<Rightarrow> (string \<times> json) list \<Rightarrow> (string \<times> json) list" where
  "obj_set k v [] = [(k, v)]"
| "obj_set k v ((k', v') # kvs) = (if k = k' then (k, v) # kvs else (k', v') # obj_set k v kvs)"

text \<open>
  \<^verbatim>\<open>v?.k\<close>: the property \<open>k\<close> of an object, \<open>JUndefined\<close> when \<open>v\<close> is null or undefined.
  The primitives carry none of the property names read here, so they answer
  \<open>JUndefined\<close> as well.
\<close>

fun js_prop :: "string \<Rightarrow> json \<Rightarrow> json" where
  "js_prop k (JObj kvs) = obj_get k kvs"
| "js_prop k v = JUndefined"

text \<open>\<^verbatim>\<open>a || b\<close> on values.\<close>

definition js_or :: "json \<Rightarrow> json \<Rightarrow> json" where
  "js_or a b = (if truthy a then a else b)"

text \<open>A nullable string inside a template literal or a document.\<close>

definition show_opt :: "string option \<Rightarrow> string" where
  "show_opt s = (case s of None \<Rightarrow> ''null'' | Some x \<Rightarrow> x)"

definition json_opt :: "string option \<Rightarrow> json" where
  "json_opt s = (case s of None \<Rightarrow> JNull | Some x \<Rightarrow> JStr x)"

section \<open>Tracks, errors and observable effects\<close>

text \<open>
  A \<^verbatim>\<open>Track\<close> as the session uses it: the engine-issued token (\<^verbatim>\<open>track: string | null\<close>)
  and a title standing for the frozen metadata.
\<close>

record track =
  token :: "string option"
  title :: string

text \<open>
  What a queue slot or \<^verbatim>\<open>current\<close> can hold at run time: \<^verbatim>\<open>null\<close>, a track, or the
  promise that \<^verbatim>\<open>Track.resolve\<close> (an async method) hands back for a track.
\<close>

datatype jsref = Null | TrackRef track | PromiseRef track

datatype error =
    PlayerNotConnected
  | TypeError string
  | ConflictingTrackFields
  | MissingEndpoint
  | TransportFailure

text \<open>Notifications sent through \<^verbatim>\<open>aqua.emit\<close>; node objects are named by reference.\<close>

datatype emitted =
    Debug string
  | NodeErrorMaxReconnect nat int
  | NodeErrorSocket nat
  | NodeErrorUnknownEvent string
  | NodeDisconnect nat
  | NodeReconnect nat
  | NodeDestroy nat
  | ErrorFetchInfo
  | ApiResponse string
  | QueueEnd
  | TrackRepeat jsref
  | QueueRepeat jsref
  | TrackStart jsref
  | TrackChange jsref
  | TrackError jsref
  | TrackStuck jsref
  | SocketClosed
  | PlayerMove "string option" string
  | PlayerLeave "string option"
  | PlayerDestroyed

text \<open>
  Everything a call does to the outside, in program order: a notification, a call of
  \<^verbatim>\<open>nodes.rest.updatePlayer({guildId, data})\<close>, a voice-gateway command
  (\<^verbatim>\<open>aqua.send({op: 4, d})\<close>), an HTTP request (method, URL, body), a reconnect timer
  (delay, node), the deletion of the now-playing message, the opening and the
  termination of a node's socket.
\<close>

datatype effect =
    Emit emitted
  | UpdatePlayerCall "string option" "(string \<times> json) list"
  | GatewaySend json
  | HttpRequest string string json
  | SetTimeout int nat
  | MessageDelete
  | SocketOpen nat
  | SocketTerminate nat

section \<open>Rest: player-update patches\<close>

record rest =
  url :: string
  sessionId :: "string option"
  password :: string
  version :: string
  calls :: nat

text \<open>
  \<^verbatim>\<open>makeRequest\<close>. The transport is outside the program: \<open>reply\<close> is what it answers,
  \<open>None\<close> when the request fails. The request is issued first; the call counter goes
  up only once the answer is in.
\<close>

definition Rest_makeRequest ::
  "string \<Rightarrow> string \<Rightarrow> json \<Rightarrow> json option \<Rightarrow> rest \<Rightarrow> (error + json) \<times> rest \<times> effect list" where
  "Rest_makeRequest method endpoint body reply r =
     (let req = HttpRequest method (url r @ endpoint) (if truthy body then body else JUndefined) in
      case reply of
        None \<Rightarrow> (Inl TransportFailure, r, [req])
      | Some data \<Rightarrow> (Inr data, r\<lparr>calls := calls r + 1\<rparr>, [req, Emit (ApiResponse endpoint)]))"

text \<open>
  \<^verbatim>\<open>updatePlayer({guildId, data})\<close>: the conflict check on the copied patch, the rewrite of
  a \<^verbatim>\<open>track\<close> object for protocol version 3, then the PATCH request.
\<close>

definition track_conflict :: "(string \<times> json) list \<Rightarrow> bool" where
  "track_conflict requestBody =
     ((truthy (js_prop ''encoded'' (obj_get ''track'' requestBody)) \<and>
       truthy (js_prop ''identifier'' (obj_get ''track'' requestBody))) \<or>
      (truthy (obj_get ''encodedTrack'' requestBody) \<and> truthy (obj_get ''identifier'' requestBody)))"

definition v3_rewrite :: "(string \<times> json) list \<Rightarrow> (string \<times> json) list" where
  "v3_rewrite requestBody =
     (let t = obj_get ''track'' requestBody in
      obj_set (if truthy (js_prop ''encoded'' t) then ''encodedTrack'' else ''identifier'')
        (js_or (js_prop ''encoded'' t) (js_prop ''identifier'' t))
        (obj_delete ''track'' requestBody))"

definition Rest_updatePlayer ::
  "string \<Rightarrow> (string \<times> json) list \<Rightarrow> json option \<Rightarrow> rest \<Rightarrow> (error + json) \<times> rest \<times> effect list" where
  "Rest_updatePlayer guildId data reply r =
     (if track_conflict data then (Inl ConflictingTrackFields, r, [])
      else
        let requestBody =
              (if version r = ''v3'' \<and> truthy (obj_get ''track'' data) then v3_rewrite data else data)
        in Rest_makeRequest ''PATCH''
             (''/'' @ version r @ ''/sessions/'' @ show_opt (sessionId r) @ ''/players/'' @ guildId
                @ ''?noReplace=false'')
             (JObj requestBody) reply r)"

text \<open>
  The notions of the specification, in its words: a patch carries an encoded track
  token, a patch carries an identifier. The protocol spells each in two ways, inside
  the \<^verbatim>\<open>track\<close> object or at the top of the patch, and either spelling counts.
\<close>

definition track_encoded :: "(string \<times> json) list \<Rightarrow> bool" where
  "track_encoded data = truthy (js_prop ''encoded'' (obj_get ''track'' data))"

definition track_identifier :: "(string \<times> json) list \<Rightarrow> bool" where
  "track_identifier data = truthy (js_prop ''identifier'' (obj_get ''track'' data))"

definition top_encoded :: "(string \<times> json) list \<Rightarrow> bool" where
  "top_encoded data = truthy (obj_get ''encodedTrack'' data)"

definition top_identifier :: "(string \<times> json) list \<Rightarrow> bool" where
  "top_identifier data = truthy (obj_get ''identifier'' data)"

definition has_encoded :: "(string \<times> json) list \<Rightarrow> bool" where
  "has_encoded data = (track_encoded data \<or> top_encoded data)"

definition has_identifier :: "(string \<times> json) list \<Rightarrow> bool" where
  "has_identifier data = (track_identifier data \<or> top_identifier data)"

definition rejected :: "(error + json) \<times> rest \<times> effect list \<Rightarrow> bool" where
  "rejected out = (fst out = Inl ConflictingTrackFields)"

text \<open>Sample patches and a sample transport.\<close>

definition rest_v4 :: rest where
  "rest_v4 = \<lparr>url = ''http://localhost:2333'', sessionId = Some ''s1'', password = ''youshallnotpass'',
              version = ''v4'', calls = 0\<rparr>"

definition mixed_patch :: "(string \<times> json) list" where
  "mixed_patch = [(''track'', JObj [(''encoded'', JStr ''QAAAjQ'')]), (''identifier'', JStr ''dQw4w9WgXcQ'')]"

definition both_in_track :: "(string \<times> json) list" where
  "both_in_track = [(''track'', JObj [(''encoded'', JStr ''QAAAjQ''), (''identifier'', JStr ''dQw4w9WgXcQ'')])]"

definition only_encoded :: "(string \<times> json) list" where
  "only_encoded = [(''track'', JObj [(''encoded'', JStr ''QAAAjQ'')]), (''volume'', JNum 80)]"

definition http_requests :: "effect list \<Rightarrow> nat" where
  "http_requests es = length (filter (\<lambda>e. case e of HttpRequest m u b \<Rightarrow> True | _ \<Rightarrow> False) es)"

section \<open>Voice link and session state\<close>

record voice =
  voice_sessionId :: "string option"
  voice_endpoint :: "string option"
  voice_token :: "string option"

text \<open>
  \<^verbatim>\<open>Connection\<close>. Its \<^verbatim>\<open>player\<close> field points back at the session that owns it, so the
  session record below holds the connection and \<open>player_ref\<close> only says whether the
  pointer is still set (\<^verbatim>\<open>cleanup()\<close> nulls it).
\<close>

record connection =
  player_ref :: bool
  voice :: voice
  region :: "string option"
  selfDeaf :: bool
  selfMute :: bool
  conn_voiceChannel :: "string option"
  lastUpdateTime :: int
  updateThrottle :: int

datatype loop_mode = LoopNone | LoopTrack | LoopQueue

text \<open>
  Keys and values of the per-session store are \<^verbatim>\<open>any\<close>: a primitive value, an object
  known by its identity, or a symbol known by its identity together with whether it
  sits in the global symbol registry (\<^verbatim>\<open>Symbol.for\<close>).
\<close>

datatype js_prim = PUndefined | PNull | PBool bool | PNum int | PStr string

datatype js_any = Prim js_prim | ObjRef nat | SymbolRef nat bool

text \<open>
  The keys a \<^verbatim>\<open>WeakMap\<close> can hold, as the language defines them from its 2023 edition
  on: an object, or a symbol that is not registered. Earlier runtimes refuse every
  symbol.
\<close>

fun can_be_held_weakly :: "js_any \<Rightarrow> bool" where
  "can_be_held_weakly (ObjRef a) = True"
| "can_be_held_weakly (SymbolRef s registered) = (\<not> registered)"
| "can_be_held_weakly (Prim v) = False"

text \<open>
  \<^verbatim>\<open>Player\<close>. \<open>nodes\<close> is the reference to the bound node that the constructor stores;
  \<open>node\<close> is the property that \<^verbatim>\<open>Node.destroy\<close> reads (\<^verbatim>\<open>player.node\<close>), which the class
  neither declares nor assigns. \<open>dataStore\<close> is the private \<^verbatim>\<open>#dataStore\<close>: \<open>None\<close> while
  it is undefined, otherwise the contents of the \<^verbatim>\<open>WeakMap\<close> by key.
  \<open>nowPlayingMessage\<close> says whether a message is held. The filter bundle and the unused
  \<^verbatim>\<open>data\<close> map are left out, and so are the two listeners: the handlers below are
  entered directly.
\<close>

record player =
  nodes :: nat
  node :: "nat option"
  guildId :: "string option"
  voiceChannel :: "string option"
  connection :: connection
  mute :: bool
  deaf :: bool
  volume :: int
  loop :: loop_mode
  dataStore :: "(js_any \<rightharpoonup> js_any) option"
  queue :: "jsref list"
  position :: int
  current :: jsref
  playing :: bool
  paused :: bool
  connected :: bool
  nowPlayingMessage :: bool
  previousTracks :: "jsref list"
  shouldDeleteMessage :: bool

text \<open>The constructors, with the options that matter here.\<close>

definition Connection_new :: "string option \<Rightarrow> connection" where
  "Connection_new vc =
     \<lparr>player_ref = True,
      voice = \<lparr>voice_sessionId = None, voice_endpoint = None, voice_token = None\<rparr>,
      region = None, selfDeaf = False, selfMute = False, conn_voiceChannel = vc,
      lastUpdateTime = 0, updateThrottle = 1000\<rparr>"

definition Player_new :: "nat \<Rightarrow> string option \<Rightarrow> string option \<Rightarrow> player" where
  "Player_new nd gid vc =
     \<lparr>nodes = nd, node = None, guildId = gid, voiceChannel = vc,
      connection = Connection_new vc, mute = False, deaf = False, volume = 100,
      loop = LoopNone, dataStore = None, queue = [], position = 0, current = Null,
      playing = False, paused = False, connected = False, nowPlayingMessage = False,
      previousTracks = [], shouldDeleteMessage = True\<rparr>"

subsection \<open>Voice link\<close>

definition voice_json :: "voice \<Rightarrow> json" where
  "voice_json v =
     JObj [(''sessionId'', json_opt (voice_sessionId v)), (''endpoint'', json_opt (voice_endpoint v)),
           (''token'', json_opt (voice_token v))]"

text \<open>
  \<^verbatim>\<open>updatePlayerVoiceData\<close>; \<open>now\<close> is the reading of \<^verbatim>\<open>Date.now()\<close>. The request goes out
  only through \<^verbatim>\<open>this.player?.\<close>, so nothing is sent once the back pointer is null.
\<close>

definition Connection_updatePlayerVoiceData :: "int \<Rightarrow> player \<Rightarrow> player \<times> effect list" where
  "Connection_updatePlayerVoiceData now p =
     (let c = connection p in
      if now - lastUpdateTime c \<ge> updateThrottle c then
        (p\<lparr>connection := c\<lparr>lastUpdateTime := now\<rparr>\<rparr>,
         if player_ref c
         then [UpdatePlayerCall (guildId p) [(''voice'', voice_json (voice c)), (''volume'', JNum (volume p))]]
         else [])
      else (p, []))"

definition Connection_updateRegion ::
  "string \<Rightarrow> string \<Rightarrow> string option \<Rightarrow> player \<Rightarrow> player \<times> effect list" where
  "Connection_updateRegion newRegion endpoint tok p =
     (let c = connection p;
          previousVoiceRegion = region c;
          message = (case previousVoiceRegion of
                       None \<Rightarrow> ''Voice Server: '' @ newRegion
                     | Some r \<Rightarrow> if r = [] then ''Voice Server: '' @ newRegion
                                else ''Changed Voice Region from '' @ r @ '' to '' @ newRegion)
      in (p\<lparr>connection := c\<lparr>region := Some newRegion,
                               voice := (voice c)\<lparr>voice_endpoint := Some endpoint, voice_token := tok\<rparr>\<rparr>\<rparr>,
          if player_ref c
          then [Emit (Debug (''[Player '' @ show_opt (guildId p) @ '' - CONNECTION] '' @ message))]
          else []))"

text \<open>\<^verbatim>\<open>endpoint.split('.')[0].replace(/[0-9]/g, "")\<close>\<close>

definition derive_region :: "string \<Rightarrow> string" where
  "derive_region endpoint =
     filter (\<lambda>c. c \<notin> set ''0123456789'') (takeWhile (\<lambda>c. c \<noteq> CHR ''.'') endpoint)"

definition Connection_setServerUpdate ::
  "string option \<Rightarrow> string option \<Rightarrow> int \<Rightarrow> player \<Rightarrow> error option \<times> player \<times> effect list" where
  "Connection_setServerUpdate endpoint tok now p =
     (case endpoint of
        None \<Rightarrow> (Some MissingEndpoint, p, [])
      | Some e \<Rightarrow>
          if e = [] then (Some MissingEndpoint, p, [])
          else
            let newRegion = derive_region e;
                (p1, e1) = (if region (connection p) \<noteq> Some newRegion
                            then Connection_updateRegion newRegion e tok p else (p, []));
                (p2, e2) = Connection_updatePlayerVoiceData now p1
            in (None, p2, e1 @ e2))"

text \<open>
  The voice-link pushes among the effects of a call, and the clock readings at which a
  run of server updates (endpoint, token, clock reading) transmits one.
\<close>

definition pushes :: "effect list \<Rightarrow> nat" where
  "pushes es = length (filter (\<lambda>e. case e of UpdatePlayerCall g d \<Rightarrow> True | _ \<Rightarrow> False) es)"

fun push_times :: "(string option \<times> string option \<times> int) list \<Rightarrow> player \<Rightarrow> int list" where
  "push_times [] p = []"
| "push_times ((e, tok, t) # xs) p =
     (let (err, p', es) = Connection_setServerUpdate e tok t p
      in (if pushes es = 0 then [] else [t]) @ push_times xs p')"

fun gaps_ok :: "int list \<Rightarrow> bool" where
  "gaps_ok [] = True"
| "gaps_ok [t] = True"
| "gaps_ok (t # u # ts) = (u - t \<ge> 1000 \<and> gaps_ok (u # ts))"

subsection \<open>Playback\<close>

definition token_truthy :: "track \<Rightarrow> bool" where
  "token_truthy t = (case token t of None \<Rightarrow> False | Some s \<Rightarrow> s \<noteq> [])"

definition clear_track :: "(string \<times> json) list" where
  "clear_track = [(''track'', JObj [(''encoded'', JNull)])]"

definition addToPreviousTrack :: "jsref \<Rightarrow> player \<Rightarrow> player" where
  "addToPreviousTrack t p =
     (let prev = (if length (previousTracks p) \<ge> 50 then butlast (previousTracks p) else previousTracks p)
      in p\<lparr>previousTracks := t # prev\<rparr>)"

text \<open>
  \<^verbatim>\<open>play()\<close>. A call returns the error it throws, if any, with the state as the throw
  leaves it. \<^verbatim>\<open>queue.shift()\<close> happens before the slot is looked at. A track without a
  usable token is replaced by the promise of its \<^verbatim>\<open>resolve\<close>, which is not awaited, so
  \<^verbatim>\<open>current?.track\<close> is then undefined.
\<close>

definition Player_play :: "player \<Rightarrow> error option \<times> player \<times> effect list" where
  "Player_play p =
     (if \<not> connected p then (Some PlayerNotConnected, p, [])
      else case queue p of
        [] \<Rightarrow> (None, p, [])
      | x # q \<Rightarrow>
          (case x of
             Null \<Rightarrow> (Some (TypeError ''cannot read property track of null''), p\<lparr>queue := q\<rparr>, [])
           | PromiseRef t \<Rightarrow> (Some (TypeError ''track.resolve is not a function''), p\<lparr>queue := q\<rparr>, [])
           | TrackRef t \<Rightarrow>
               let cur = (if token_truthy t then TrackRef t else PromiseRef t);
                   enc = (if token_truthy t then json_opt (token t) else JUndefined)
               in (None, p\<lparr>queue := q, current := cur, playing := True, position := 0\<rparr>,
                   [Emit (Debug (''Playing track: '' @ (if token_truthy t then show_opt (token t) else ''undefined''))),
                    UpdatePlayerCall (guildId p) [(''track'', JObj [(''encoded'', enc)])]])))"

text \<open>\<^verbatim>\<open>connect(options)\<close>: the voice-gateway handshake; it marks the session connected.\<close>

definition Player_connect ::
  "string \<Rightarrow> string \<Rightarrow> bool \<Rightarrow> bool \<Rightarrow> player \<Rightarrow> error option \<times> player \<times> effect list" where
  "Player_connect gid vc df mt p =
     (if connected p then (Some (TypeError ''Player is already connected.''), p, [])
      else (None, p\<lparr>connected := True\<rparr>,
            [GatewaySend (JObj [(''guild_id'', JStr gid), (''channel_id'', JStr vc),
                                (''self_deaf'', JBool df), (''self_mute'', JBool mt)]),
             Emit (Debug (''Player connected to voice channel: '' @ vc @ ''.''))]))"

definition Player_stop :: "player \<Rightarrow> player \<times> effect list" where
  "Player_stop p =
     (if \<not> playing p then (p, [])
      else (p\<lparr>playing := False, position := 0\<rparr>, [UpdatePlayerCall (guildId p) clear_track]))"

definition Player_skip :: "player \<Rightarrow> error option \<times> player \<times> effect list" where
  "Player_skip p =
     (let (p1, e1) = Player_stop p in
      if playing p1 then (let (err, p2, e2) = Player_play p1 in (err, p2, e1 @ e2))
      else (None, p1, e1))"

definition Player_pause :: "bool \<Rightarrow> player \<Rightarrow> player \<times> effect list" where
  "Player_pause b p = (p\<lparr>paused := b\<rparr>, [UpdatePlayerCall (guildId p) [(''paused'', JBool b)]])"

definition Player_destroy :: "player \<Rightarrow> player \<times> effect list" where
  "Player_destroy p =
     (if \<not> connected p then (p, [])
      else (p\<lparr>queue := [], current := Null, previousTracks := [], playing := False, position := 0,
              connected := False\<rparr>,
            [UpdatePlayerCall (guildId p) clear_track,
             GatewaySend (JObj [(''guild_id'', json_opt (guildId p)), (''channel_id'', JNull)])]))"

definition Player_clearData :: "player \<Rightarrow> player" where
  "Player_clearData p = p\<lparr>dataStore := Some Map.empty\<rparr>"

definition Player_cleanup :: "player \<Rightarrow> player \<times> effect list" where
  "Player_cleanup p =
     (let (p1, e1) = (if \<not> playing p \<and> \<not> paused p \<and> queue p = [] then Player_destroy p else (p, []))
      in (Player_clearData p1, e1))"

text \<open>
  The key-value store. Reading a method of the undefined \<^verbatim>\<open>#dataStore\<close> throws; on a
  \<^verbatim>\<open>WeakMap\<close>, \<^verbatim>\<open>set\<close> throws for a key that cannot be held weakly, and \<^verbatim>\<open>get\<close> answers
  \<^verbatim>\<open>undefined\<close> for such a key and for a key it does not hold.
\<close>

definition Player_set :: "js_any \<Rightarrow> js_any \<Rightarrow> player \<Rightarrow> error + player" where
  "Player_set key val p =
     (case dataStore p of
        None \<Rightarrow> Inl (TypeError ''cannot read property set of undefined'')
      | Some m \<Rightarrow>
          if can_be_held_weakly key then Inr (p\<lparr>dataStore := Some (m(key \<mapsto> val))\<rparr>)
          else Inl (TypeError ''invalid value used as weak map key''))"

definition Player_get :: "js_any \<Rightarrow> player \<Rightarrow> error + js_any" where
  "Player_get key p =
     (case dataStore p of
        None \<Rightarrow> Inl (TypeError ''cannot read property get of undefined'')
      | Some m \<Rightarrow>
          if can_be_held_weakly key
          then (case m key of None \<Rightarrow> Inr (Prim PUndefined) | Some x \<Rightarrow> Inr x)
          else Inr (Prim PUndefined))"

subsection \<open>Engine events\<close>

text \<open>\<^verbatim>\<open>payload.reason?.replace("_", "").toLowerCase()\<close>, on ASCII text.\<close>

fun replace_first_underscore :: "string \<Rightarrow> string" where
  "replace_first_underscore [] = []"
| "replace_first_underscore (c # cs) = (if c = CHR ''_'' then cs else c # replace_first_underscore cs)"

definition to_lower :: "char \<Rightarrow> char" where
  "to_lower c =
     (case map_of (zip ''ABCDEFGHIJKLMNOPQRSTUVWXYZ'' ''abcdefghijklmnopqrstuvwxyz'') c of
        Some d \<Rightarrow> d
      | None \<Rightarrow> c)"

definition normalize_reason :: "string option \<Rightarrow> string option" where
  "normalize_reason r = map_option (\<lambda>s. map to_lower (replace_first_underscore s)) r"

text \<open>
  \<^verbatim>\<open>trackEnd\<close> from the loop \<^verbatim>\<open>switch\<close> on: requeue by loop mode, the exhaustion check with
  \<^verbatim>\<open>cleanup()\<close> (which has no \<^verbatim>\<open>await\<close>, so it runs to its end at once), and the last
  \<^verbatim>\<open>player.play()\<close>. \<open>es\<close> are the effects so far.
\<close>

definition trackEnd_tail :: "jsref \<Rightarrow> player \<Rightarrow> effect list \<Rightarrow> error option \<times> player \<times> effect list" where
  "trackEnd_tail t p es =
     (let (p1, e1) = (case loop p of
                        LoopTrack \<Rightarrow> (p\<lparr>queue := t # queue p\<rparr>, [Emit (TrackRepeat t)])
                      | LoopQueue \<Rightarrow> (p\<lparr>queue := queue p @ [t]\<rparr>, [Emit (QueueRepeat t)])
                      | LoopNone \<Rightarrow> (p, []));
          (p2, e2) = (if queue p1 = []
                      then (let (p', e') = Player_cleanup (p1\<lparr>playing := False\<rparr>) in (p', Emit QueueEnd # e'))
                      else (p1, []));
          (err, p3, e3) = Player_play p2
      in (err, p3, es @ e1 @ e2 @ e3))"

text \<open>
  \<^verbatim>\<open>trackEnd(player, track, payload)\<close>, with \<open>this\<close> and \<open>player\<close> the same session. In the
  load-failure branch nothing follows \<^verbatim>\<open>player.play()\<close> but the end of the \<^verbatim>\<open>if\<close>: control
  goes on into the \<^verbatim>\<open>switch\<close>, unless \<^verbatim>\<open>play()\<close> threw.
\<close>

definition Player_trackEnd ::
  "jsref \<Rightarrow> string option \<Rightarrow> player \<Rightarrow> error option \<times> player \<times> effect list" where
  "Player_trackEnd t reason0 p =
     (let (p0, e0) = (if shouldDeleteMessage p \<and> nowPlayingMessage p
                      then (p\<lparr>nowPlayingMessage := False\<rparr>, [MessageDelete]) else (p, []));
          reason = normalize_reason reason0
      in if reason = Some ''loadfailed'' \<or> reason = Some ''cleanup'' then
           (if queue p0 = [] then (None, p0, e0 @ [Emit QueueEnd])
            else (case Player_play p0 of
                    (Some err, p1, e1) \<Rightarrow> (Some err, p1, e0 @ e1)
                  | (None, p1, e1) \<Rightarrow> trackEnd_tail t p1 (e0 @ e1)))
         else trackEnd_tail t p0 e0)"

text \<open>
  \<^verbatim>\<open>handleEvent\<close>: the dispatch table. \<open>found\<close> says whether the registry holds a session
  for the payload's guild (it is this one); the track handed to the handler is the
  current one. Every handler is called with (player, track, payload), so
  \<^verbatim>\<open>socketClosed(player, payload)\<close> reads its close code off the track and finds none, and
  \<^verbatim>\<open>handleUnknownEvent(payload, track)\<close> reads the event type off the player.
\<close>

definition Player_handleEvent ::
  "bool \<Rightarrow> string \<Rightarrow> string option \<Rightarrow> player \<Rightarrow> error option \<times> player \<times> effect list" where
  "Player_handleEvent found ty reason p =
     (if \<not> found then (None, p, [])
      else
        let t = current p in
        if ty = ''TrackStartEvent'' then (None, p\<lparr>playing := True, paused := False\<rparr>, [Emit (TrackStart t)])
        else if ty = ''TrackEndEvent'' then Player_trackEnd t reason p
        else if ty = ''TrackExceptionEvent''
          then (let (p1, e1) = Player_stop p in (None, p1, Emit (TrackError t) # e1))
        else if ty = ''TrackStuckEvent''
          then (let (p1, e1) = Player_stop p in (None, p1, Emit (TrackStuck t) # e1))
        else if ty = ''TrackChangeEvent'' then (None, p\<lparr>playing := True, paused := False\<rparr>, [Emit (TrackChange t)])
        else if ty = ''WebSocketClosedEvent''
          then (let (p1, e1) = Player_pause True p
                in (None, p1, Emit SocketClosed # e1 @ [Emit (Debug ''Player paused due to socket closure.'')]))
        else (None, p, [Emit (NodeErrorUnknownEvent ''undefined'')]))"

subsection \<open>Voice state updates\<close>

text \<open>
  \<^verbatim>\<open>Connection.cleanup()\<close> and \<^verbatim>\<open>setStateUpdate(data)\<close>. Every step of the cleanup goes
  through \<^verbatim>\<open>this.player?.\<close>, so a second cleanup only resets the fields.
\<close>

definition Connection_cleanup :: "player \<Rightarrow> player \<times> effect list" where
  "Connection_cleanup p =
     (let (p1, e1) = (if player_ref (connection p)
                      then (let (p', e') = Player_destroy p
                            in (p', Emit (PlayerLeave (voiceChannel p)) # e' @ [Emit PlayerDestroyed]))
                      else (p, []))
      in (p1\<lparr>connection := (connection p1)
              \<lparr>player_ref := False,
               voice := \<lparr>voice_sessionId = None, voice_endpoint = None, voice_token = None\<rparr>,
               region := None, selfDeaf := False, selfMute := False, conn_voiceChannel := None\<rparr>\<rparr>,
          e1))"

definition Connection_setStateUpdate ::
  "string option \<Rightarrow> string option \<Rightarrow> bool \<Rightarrow> bool \<Rightarrow> player \<Rightarrow> player \<times> effect list" where
  "Connection_setStateUpdate channel_id session_id self_deaf self_mute p =
     (case (channel_id, session_id) of
        (Some ch, Some sid) \<Rightarrow>
          if ch = [] \<or> sid = [] then Connection_cleanup p
          else
            let c = connection p;
                moved = (conn_voiceChannel c \<noteq> Some ch);
                c1 = (if moved then c\<lparr>conn_voiceChannel := Some ch\<rparr> else c)
            in (p\<lparr>connection := c1\<lparr>selfDeaf := self_deaf, selfMute := self_mute,
                                      voice := (voice c1)\<lparr>voice_sessionId := Some sid\<rparr>\<rparr>\<rparr>,
                if moved \<and> player_ref c then [Emit (PlayerMove (conn_voiceChannel c) ch)] else [])
      | _ \<Rightarrow> Connection_cleanup p)"

section \<open>Nodes and the pool\<close>

text \<open>The health snapshot, flattened; \<^verbatim>\<open>#createStats()\<close> is the zero snapshot.\<close>

record stats =
  st_players :: int
  st_playingPlayers :: int
  st_uptime :: int
  mem_free :: int
  mem_used :: int
  mem_allocated :: int
  mem_reservable :: int
  mem_freePercentage :: real
  mem_usedPercentage :: real
  cpu_cores :: int
  cpu_systemLoad :: real
  cpu_lavalinkLoad :: real
  cpu_lavalinkLoadPercentage :: real
  frame_sent :: int
  frame_nulled :: int
  frame_deficit :: int
  st_ping :: int

definition createStats :: stats where
  "createStats =
     \<lparr>st_players = 0, st_playingPlayers = 0, st_uptime = 0,
      mem_free = 0, mem_used = 0, mem_allocated = 0, mem_reservable = 0,
      mem_freePercentage = 0, mem_usedPercentage = 0,
      cpu_cores = 0, cpu_systemLoad = 0, cpu_lavalinkLoad = 0, cpu_lavalinkLoadPercentage = 0,
      frame_sent = 0, frame_nulled = 0, frame_deficit = 0, st_ping = 0\<rparr>"

text \<open>
  \<^verbatim>\<open>Node\<close>: \<open>ws\<close> says whether \<^verbatim>\<open>#ws\<close> holds a socket, \<open>reconnectAttempted\<close> is the private
  attempt counter.
\<close>

record node =
  name :: string
  host :: string
  regions :: "string list"
  node_sessionId :: "string option"
  rest :: rest
  autoResume :: bool
  reconnectTimeout :: int
  reconnectTries :: int
  node_connected :: bool
  info :: json
  stats :: stats
  ws :: bool
  reconnectAttempted :: int

text \<open>
  \<^verbatim>\<open>Aqua\<close>: node objects live in a store and are named by reference, since the pool, the
  sessions and the socket callbacks all reach the same object. \<open>nodeMap\<close> and \<open>players\<close>
  are the two \<^verbatim>\<open>Map\<close>s, in insertion order.
\<close>

record aqua =
  objs :: "nat \<Rightarrow> node"
  nodeMap :: "(string \<times> nat) list"
  players :: "(string \<times> player) list"

text \<open>
  The constructor, for a configuration with the given name, host and regions and the
  given retry options. An empty name falls back to the host. The base URL of the REST
  client is kept as scheme and host.
\<close>

definition Node_new :: "string \<Rightarrow> string \<Rightarrow> string list \<Rightarrow> int \<Rightarrow> int \<Rightarrow> node" where
  "Node_new nm h rs timeout tries =
     \<lparr>name = (if nm = [] then h else nm), host = h, regions = rs, node_sessionId = None,
      rest = \<lparr>url = ''http://'' @ h, sessionId = None, password = ''youshallnotpass'',
               version = ''v4'', calls = 0\<rparr>,
      autoResume = False, reconnectTimeout = timeout, reconnectTries = tries,
      node_connected = False, info = JNull, stats = createStats, ws = False,
      reconnectAttempted = 0\<rparr>"

definition upd_node :: "nat \<Rightarrow> (node \<Rightarrow> node) \<Rightarrow> aqua \<Rightarrow> aqua" where
  "upd_node i f a = a\<lparr>objs := (objs a)(i := f (objs a i))\<rparr>"

subsection \<open>Load score and selection\<close>

definition MAX_SAFE_INTEGER :: int where
  "MAX_SAFE_INTEGER = 2 ^ 53 - 1"

text \<open>\<^verbatim>\<open>Math.round\<close>: to the nearest integer, halves upwards.\<close>

definition js_round :: "real \<Rightarrow> int" where
  "js_round x = \<lfloor>x + 1 / 2\<rfloor>"

text \<open>
  The \<^verbatim>\<open>penalties\<close> getter. Numbers are exact here: the counters are integers and
  \<^verbatim>\<open>Math.pow\<close> is the real power, without the rounding of double precision. The
  snapshot always has its \<^verbatim>\<open>cpu\<close> and \<^verbatim>\<open>frameStats\<close> parts.
\<close>

definition Node_penalties :: "node \<Rightarrow> int" where
  "Node_penalties n =
     (if \<not> node_connected n then MAX_SAFE_INTEGER
      else
        let s = stats n;
            penalties = st_players s;
            penalties = (if cpu_systemLoad s \<noteq> 0
                         then penalties + js_round ((105 / 100) powr (100 * cpu_systemLoad s) * 10 - 10)
                         else penalties)
        in penalties + frame_deficit s + frame_nulled s * 2)"

text \<open>
  \<^verbatim>\<open>Array.prototype.sort(cmp)\<close> is stable: for a comparator that orders by a key, the
  result is the arrangement that insertion from the right builds.
\<close>

fun insert_sorted :: "('a \<Rightarrow> 'a \<Rightarrow> int) \<Rightarrow> 'a \<Rightarrow> 'a list \<Rightarrow> 'a list" where
  "insert_sorted cmp x [] = [x]"
| "insert_sorted cmp x (y # ys) = (if cmp x y \<le> 0 then x # y # ys else y # insert_sorted cmp x ys)"

definition js_sort :: "('a \<Rightarrow> 'a \<Rightarrow> int) \<Rightarrow> 'a list \<Rightarrow> 'a list" where
  "js_sort cmp xs = foldr (insert_sorted cmp) xs []"

definition node_calls :: "aqua \<Rightarrow> nat \<Rightarrow> int" where
  "node_calls a i = int (calls (rest (objs a i)))"

text \<open>\<^verbatim>\<open>leastUsedNodes\<close>, which is what selection without a region returns.\<close>

definition Aqua_leastUsedNodes :: "aqua \<Rightarrow> nat list" where
  "Aqua_leastUsedNodes a =
     (let activeNodes = filter (\<lambda>i. node_connected (objs a i)) (map snd (nodeMap a))
      in if activeNodes \<noteq> [] then js_sort (\<lambda>x y. node_calls a x - node_calls a y) activeNodes else [])"

subsection \<open>Connection lifecycle\<close>

definition Node_cleanup :: "nat \<Rightarrow> aqua \<Rightarrow> aqua \<times> effect list" where
  "Node_cleanup i a =
     (if ws (objs a i) then (upd_node i (\<lambda>n. n\<lparr>ws := False\<rparr>) a, [SocketTerminate i]) else (a, []))"

text \<open>The loop of \<^verbatim>\<open>destroy\<close> over \<^verbatim>\<open>aqua.players.values()\<close>.\<close>

fun destroy_bound :: "nat \<Rightarrow> (string \<times> player) list \<Rightarrow> (string \<times> player) list \<times> effect list" where
  "destroy_bound i [] = ([], [])"
| "destroy_bound i ((g, p) # ps) =
     (let (p', e) = (if node p = Some i then Player_destroy p else (p, []));
          (ps', es) = destroy_bound i ps
      in ((g, p') # ps', e @ es))"

text \<open>
  \<^verbatim>\<open>destroy(clean)\<close>. In the clean variant \<^verbatim>\<open>this.aqua.nodes\<close> is the array of node
  configurations, which has no \<^verbatim>\<open>delete\<close>.
\<close>

definition Node_destroy :: "bool \<Rightarrow> nat \<Rightarrow> aqua \<Rightarrow> error option \<times> aqua \<times> effect list" where
  "Node_destroy clean i a =
     (if clean then (Some (TypeError ''this.aqua.nodes.delete is not a function''), a, [Emit (NodeDestroy i)])
      else
        let (ps, e1) = (if node_connected (objs a i) then destroy_bound i (players a) else (players a, []));
            (a2, e2) = Node_cleanup i (a\<lparr>players := ps\<rparr>);
            a3 = upd_node i (\<lambda>n. n\<lparr>node_connected := False\<rparr>) a2;
            a4 = a3\<lparr>nodeMap := filter (\<lambda>kv. fst kv \<noteq> name (objs a3 i)) (nodeMap a3)\<rparr>;
            a5 = upd_node i (\<lambda>n. n\<lparr>info := JNull, stats := createStats\<rparr>) a4
        in (None, a5, e1 @ e2 @ [Emit (NodeDestroy i)]))"

definition Node_reconnect :: "nat \<Rightarrow> aqua \<Rightarrow> aqua \<times> effect list" where
  "Node_reconnect i a =
     (let a1 = upd_node i (\<lambda>n. n\<lparr>reconnectAttempted := reconnectAttempted n + 1\<rparr>) a;
          n = objs a1 i
      in if reconnectAttempted n \<ge> reconnectTries n
         then (let (err, a2, e2) = Node_destroy False i a1
               in (a2, Emit (NodeErrorMaxReconnect i (reconnectTries n)) # e2))
         else (a1, [SetTimeout (reconnectTimeout n * reconnectAttempted n) i]))"

definition Node_onClose :: "nat \<Rightarrow> aqua \<Rightarrow> aqua \<times> effect list" where
  "Node_onClose i a =
     (let (a2, e2) = Node_reconnect i (upd_node i (\<lambda>n. n\<lparr>node_connected := False\<rparr>) a)
      in (a2, Emit (NodeDisconnect i) # e2))"

definition Node_onError :: "nat \<Rightarrow> aqua \<Rightarrow> aqua \<times> effect list" where
  "Node_onError i a = (a, [Emit (NodeErrorSocket i)])"

text \<open>
  \<^verbatim>\<open>#onOpen\<close>; \<open>reply\<close> is the answer to the info request. With \<^verbatim>\<open>autoResume\<close> the handler
  calls \<^verbatim>\<open>this.resumePlayers()\<close>, which the class does not have, and lands in its
  \<^verbatim>\<open>catch\<close>.
\<close>

definition Node_onOpen :: "json option \<Rightarrow> nat \<Rightarrow> aqua \<Rightarrow> aqua \<times> effect list" where
  "Node_onOpen reply i a =
     (let a1 = upd_node i (\<lambda>n. n\<lparr>node_connected := True\<rparr>) a;
          (res, r', e1) = Rest_makeRequest ''GET'' ''/v4/info'' JNull reply (rest (objs a1 i));
          a2 = upd_node i (\<lambda>n. n\<lparr>rest := r'\<rparr>) a1;
          dbg = Emit (Debug ''Connected'')
      in case res of
           Inr data \<Rightarrow>
             if autoResume (objs a2 i)
             then (upd_node i (\<lambda>n. n\<lparr>info := JNull\<rparr>) a2, dbg # e1 @ [Emit ErrorFetchInfo])
             else (upd_node i (\<lambda>n. n\<lparr>info := data\<rparr>) a2, dbg # e1)
         | Inl err \<Rightarrow> (upd_node i (\<lambda>n. n\<lparr>info := JNull\<rparr>) a2, dbg # e1 @ [Emit ErrorFetchInfo]))"

text \<open>
  \<^verbatim>\<open>connect()\<close>; \<open>ok\<close> says whether the socket constructor returns (it may throw). The
  timer set by \<^verbatim>\<open>#reconnect\<close> announces the retry and connects.
\<close>

definition Node_connect :: "bool \<Rightarrow> nat \<Rightarrow> aqua \<Rightarrow> aqua \<times> effect list" where
  "Node_connect ok i a =
     (let (a1, e1) = Node_cleanup i a in
      if ok then (upd_node i (\<lambda>n. n\<lparr>ws := True\<rparr>) a1, e1 @ [SocketOpen i, Emit (Debug ''Connecting...'')])
      else (let (a2, e2) = Node_reconnect i a1 in (a2, e1 @ Emit (Debug ''Connection failed'') # e2)))"

definition Node_timer :: "bool \<Rightarrow> nat \<Rightarrow> aqua \<Rightarrow> aqua \<times> effect list" where
  "Node_timer ok i a = (let (a1, e1) = Node_connect ok i a in (a1, Emit (NodeReconnect i) # e1))"

text \<open>
  What can happen to a node: its socket opens, errors or closes (heard only while the
  socket's listeners are attached), its retry timer fires, \<^verbatim>\<open>connect()\<close> or
  \<^verbatim>\<open>destroy()\<close> is called.
\<close>

datatype node_input =
    Open "json option"
  | SocketError
  | Close
  | Timer bool
  | Connect bool
  | Destroy bool

fun node_step :: "nat \<Rightarrow> node_input \<Rightarrow> aqua \<Rightarrow> aqua \<times> effect list" where
  "node_step i (Open reply) a = (if ws (objs a i) then Node_onOpen reply i a else (a, []))"
| "node_step i SocketError a = (if ws (objs a i) then Node_onError i a else (a, []))"
| "node_step i Close a = (if ws (objs a i) then Node_onClose i a else (a, []))"
| "node_step i (Timer ok) a = Node_timer ok i a"
| "node_step i (Connect ok) a = Node_connect ok i a"
| "node_step i (Destroy clean) a = (let (err, a1, e1) = Node_destroy clean i a in (a1, e1))"

fun node_run :: "nat \<Rightarrow> node_input list \<Rightarrow> aqua \<Rightarrow> aqua \<times> effect list" where
  "node_run i [] a = (a, [])"
| "node_run i (x # xs) a =
     (let (a1, e1) = node_step i x a; (a2, e2) = node_run i xs a1 in (a2, e1 @ e2))"

text \<open>The attempt counter of node \<open>j\<close>, and the connected nodes of the pool in insertion order.\<close>

definition counter :: "aqua \<Rightarrow> nat \<Rightarrow> int" where
  "counter a j = reconnectAttempted (objs a j)"

definition activeNodes :: "aqua \<Rightarrow> nat list" where
  "activeNodes a = filter (\<lambda>i. node_connected (objs a i)) (map snd (nodeMap a))"

definition fatal_errors :: "effect list \<Rightarrow> nat" where
  "fatal_errors es =
     length (filter (\<lambda>e. case e of Emit (NodeErrorMaxReconnect i k) \<Rightarrow> True | _ \<Rightarrow> False) es)"

section \<open>Runs and sample states\<close>

text \<open>
  The caller-facing operations of a session that never reach \<^verbatim>\<open>clearData()\<close>, and a run
  of them. A failed \<^verbatim>\<open>set\<close> leaves the session as it was.
\<close>

datatype session_op =
    OpConnect string string bool bool
  | OpPlay
  | OpStop
  | OpSkip
  | OpPause bool
  | OpDestroy
  | OpSet js_any js_any
  | OpGet js_any
  | OpServerUpdate "string option" "string option" int
  | OpStateUpdate "string option" "string option" bool bool

fun session_step :: "session_op \<Rightarrow> player \<Rightarrow> player" where
  "session_step (OpConnect gid vc df mt) p = fst (snd (Player_connect gid vc df mt p))"
| "session_step OpPlay p = fst (snd (Player_play p))"
| "session_step OpStop p = fst (Player_stop p)"
| "session_step OpSkip p = fst (snd (Player_skip p))"
| "session_step (OpPause b) p = fst (Player_pause b p)"
| "session_step OpDestroy p = fst (Player_destroy p)"
| "session_step (OpSet k v) p = (case Player_set k v p of Inl e \<Rightarrow> p | Inr p' \<Rightarrow> p')"
| "session_step (OpGet k) p = p"
| "session_step (OpServerUpdate e t now) p = fst (snd (Connection_setServerUpdate e t now p))"
| "session_step (OpStateUpdate ch sid df mt) p = fst (Connection_setStateUpdate ch sid df mt p)"

fun session_run :: "session_op list \<Rightarrow> player \<Rightarrow> player" where
  "session_run [] p = p"
| "session_run (x # xs) p = session_run xs (session_step x p)"

text \<open>\<^verbatim>\<open>stop()\<close> followed by \<^verbatim>\<open>play()\<close>: what starting the next track after a skip would be.\<close>

definition stop_then_play :: "player \<Rightarrow> error option \<times> player \<times> effect list" where
  "stop_then_play p =
     (let (p1, e1) = Player_stop p; (err, p2, e2) = Player_play p1 in (err, p2, e1 @ e2))"

definition play_command :: "player \<Rightarrow> track \<Rightarrow> effect" where
  "play_command p t = UpdatePlayerCall (guildId p) [(''track'', JObj [(''encoded'', json_opt (token t))])]"

text \<open>Three tracks and a session connected to a voice channel, idle, with an empty queue.\<close>

definition trackA :: track where
  "trackA = \<lparr>token = Some ''QAAAtokenA'', title = ''A''\<rparr>"

definition trackB :: track where
  "trackB = \<lparr>token = Some ''QAAAtokenB'', title = ''B''\<rparr>"

definition trackC :: track where
  "trackC = \<lparr>token = Some ''QAAAtokenC'', title = ''C''\<rparr>"

definition session0 :: player where
  "session0 = (Player_new 1 (Some ''g1'') (Some ''vc1''))\<lparr>connected := True\<rparr>"

text \<open>The same session while it plays A, with the tracks \<open>q\<close> pending and loop mode \<open>m\<close>.\<close>

definition playingA :: "loop_mode \<Rightarrow> track list \<Rightarrow> player" where
  "playingA m q = session0\<lparr>current := TrackRef trackA, playing := True, queue := map TrackRef q, loop := m\<rparr>"

text \<open>
  The session once its voice link knows the region \<^verbatim>\<open>us-east\<close>, and the credential
  document a push carries.
\<close>

definition linked :: player where
  "linked = session0\<lparr>connection := (connection session0)
     \<lparr>region := Some ''us-east'',
      voice := \<lparr>voice_sessionId = Some ''sess1'', voice_endpoint = Some ''us-east1.discord.gg'',
                voice_token = Some ''tokenOld''\<rparr>\<rparr>\<rparr>"

definition usable :: "string option \<Rightarrow> bool" where
  "usable e = (case e of None \<Rightarrow> False | Some x \<Rightarrow> x \<noteq> [])"

definition voice_push :: "player \<Rightarrow> effect" where
  "voice_push p =
     UpdatePlayerCall (guildId p)
       [(''voice'', voice_json (voice (connection p))), (''volume'', JNum (volume p))]"

text \<open>
  A pool with one node, configured with three reconnect tries, and two sessions bound
  to it: the first as the registry constructs it, the second with the \<open>node\<close> property
  set by hand to the node as well.
\<close>

definition node1 :: node where
  "node1 = Node_new ''n1'' ''localhost'' [] 2000 3"

definition pool1 :: aqua where
  "pool1 =
     \<lparr>objs = (\<lambda>i. if i = 1 then node1 else Node_new [] ''unused'' [] 2000 3),
      nodeMap = [(''n1'', 1)],
      players = [(''g1'', playingA LoopNone [trackB]),
                 (''g2'', (playingA LoopNone [trackC])\<lparr>guildId := Some ''g2'', node := Some 1\<rparr>)]\<rparr>"

text \<open>Three opens that fail: each time the socket is created and closes without opening.\<close>

definition three_failed_opens :: "node_input list" where
  "three_failed_opens = [Connect True, Close, Timer True, Close, Timer True, Close]"

text \<open>Two failed opens and then a successful one.\<close>

definition third_open_succeeds :: "node_input list" where
  "third_open_succeeds = [Connect True, Close, Timer True, Close, Timer True, Open (Some JNull)]"

text \<open>
  A pool of two connected nodes: the first has served no request and hosts ten
  sessions, the second has served five requests and hosts none. And two single nodes:
  one that is not connected, one that is connected and reports \<open>2 ^ 53\<close> sessions.
\<close>

definition busy_node :: node where
  "busy_node = (Node_new ''busy'' ''a.example'' [] 2000 3)
     \<lparr>node_connected := True, stats := createStats\<lparr>st_players := 10\<rparr>\<rparr>"

definition idle_node :: node where
  "idle_node = (Node_new ''idle'' ''b.example'' [] 2000 3)
     \<lparr>node_connected := True,
      rest := (rest (Node_new ''idle'' ''b.example'' [] 2000 3))\<lparr>calls := 5\<rparr>\<rparr>"

definition down_node :: node where
  "down_node = Node_new ''down'' ''c.example'' [] 2000 3"

definition pool2 :: aqua where
  "pool2 =
     \<lparr>objs = (\<lambda>i. if i = 1 then busy_node else if i = 2 then idle_node else down_node),
      nodeMap = [(''busy'', 1), (''idle'', 2), (''down'', 3)],
      players = []\<rparr>"

definition crowded_node :: node where
  "crowded_node = (Node_new ''crowded'' ''d.example'' [] 2000 3)
     \<lparr>node_connected := True, stats := createStats\<lparr>st_players := 2 ^ 53\<rparr>\<rparr>"

section \<open>Load-failure skip (C1)\<close>

lemmas playback_defs = Player_play_def Player_stop_def Player_skip_def Player_destroy_def
  Player_cleanup_def Player_clearData_def Player_trackEnd_def trackEnd_tail_def
  Player_handleEvent_def token_truthy_def normalize_reason_def to_lower_def json_opt_def
  show_opt_def clear_track_def stop_then_play_def play_command_def Let_def

lemmas sample_defs = session0_def playingA_def Player_new_def Connection_new_def trackA_def
  trackB_def trackC_def

text \<open>The engine's spellings of the two reasons that select the load-failure branch.\<close>

lemma load_failure_reasons:
  "normalize_reason (Some ''loadFailed'') = Some ''loadfailed''"
  "normalize_reason (Some ''LOAD_FAILED'') = Some ''loadfailed''"
  "normalize_reason (Some ''cleanup'') = Some ''cleanup''"
  "normalize_reason (Some ''CLEANUP'') = Some ''cleanup''"
  by (simp_all add: normalize_reason_def to_lower_def)

text \<open>
  C1: the session plays A with B and C pending when the engine reports that A ended
  with reason \<^verbatim>\<open>loadFailed\<close>. The claim wants A dropped and B current, whatever the
  loop mode. The handler starts B and then runs on into the loop handling and the
  second \<^verbatim>\<open>play()\<close>: with loop mode none B is replaced by C at once; with loop mode
  track A is put back at the head of the queue and becomes current again; with loop
  mode queue A is appended to the tail and C becomes current.
\<close>

theorem C1_load_failure_advances_twice:
  "Player_handleEvent True ''TrackEndEvent'' (Some ''loadFailed'') (playingA LoopNone [trackB, trackC]) =
     (None, (playingA LoopNone [])\<lparr>current := TrackRef trackC\<rparr>,
      [Emit (Debug ''Playing track: QAAAtokenB''), play_command session0 trackB,
       Emit (Debug ''Playing track: QAAAtokenC''), play_command session0 trackC]) \<and>
   Player_handleEvent True ''TrackEndEvent'' (Some ''loadFailed'') (playingA LoopTrack [trackB, trackC]) =
     (None, playingA LoopTrack [trackC],
      [Emit (Debug ''Playing track: QAAAtokenB''), play_command session0 trackB,
       Emit (TrackRepeat (TrackRef trackA)),
       Emit (Debug ''Playing track: QAAAtokenA''), play_command session0 trackA]) \<and>
   Player_handleEvent True ''TrackEndEvent'' (Some ''loadFailed'') (playingA LoopQueue [trackB, trackC]) =
     (None, (playingA LoopQueue [trackA])\<lparr>current := TrackRef trackC\<rparr>,
      [Emit (Debug ''Playing track: QAAAtokenB''), play_command session0 trackB,
       Emit (QueueRepeat (TrackRef trackA)),
       Emit (Debug ''Playing track: QAAAtokenC''), play_command session0 trackC])"
  by (simp add: playback_defs sample_defs)

section \<open>Exhausted reconnects (C2)\<close>

lemmas node_defs = Node_connect_def Node_cleanup_def Node_onClose_def
  Node_reconnect_def Node_destroy_def Node_timer_def Node_onOpen_def Node_onError_def upd_node_def
  Rest_makeRequest_def Let_def

lemmas pool_defs = pool1_def node1_def Node_new_def three_failed_opens_def third_open_succeeds_def

text \<open>
  C2: a node with three reconnect tries sees three opens fail. It is removed from the
  pool and marked not connected, and the fatal error fires exactly once, as the claim
  says. The claim also wants every session bound to the node torn down: both sessions
  are exactly as they were, still connected and with their queues. \<^verbatim>\<open>#onClose\<close> has
  cleared the connected flag before \<^verbatim>\<open>destroy()\<close> tests it, so the loop over the
  sessions is not entered.
\<close>

theorem C2_fatal_destroy_spares_sessions:
  "nodeMap (fst (node_run 1 three_failed_opens pool1)) = [] \<and>
   \<not> node_connected (objs (fst (node_run 1 three_failed_opens pool1)) 1) \<and>
   reconnectAttempted (objs (fst (node_run 1 three_failed_opens pool1)) 1) = 3 \<and>
   fatal_errors (snd (node_run 1 three_failed_opens pool1)) = 1 \<and>
   players (fst (node_run 1 three_failed_opens pool1)) = players pool1 \<and>
   map (\<lambda>kv. connected (snd kv)) (players (fst (node_run 1 three_failed_opens pool1))) = [True, True] \<and>
   map (\<lambda>kv. queue (snd kv)) (players (fst (node_run 1 three_failed_opens pool1))) =
     [[TrackRef trackB], [TrackRef trackC]]"
  by (simp add: node_defs pool_defs fatal_errors_def sample_defs)

text \<open>
  Called on a node that is still marked connected, \<^verbatim>\<open>destroy()\<close> does enter the loop; it
  then tears down the session that carries the \<open>node\<close> property and passes over the
  one the registry constructed, which has none.
\<close>

lemma destroy_cascade_when_connected:
  "map (\<lambda>kv. connected (snd kv))
     (players (fst (snd (Node_destroy False 1 (upd_node 1 (\<lambda>n. n\<lparr>node_connected := True\<rparr>) pool1))))) =
   [True, False]"
  by (simp add: node_defs pool_defs sample_defs Player_destroy_def)

section \<open>The reconnect-attempt counter (C3)\<close>

text \<open>
  C3, as stated, fails: after two failed opens and a third, successful one the node
  is connected and its attempt counter is 2, not 0.
\<close>

theorem C3_counter_survives_open:
  "reconnectAttempted (objs (fst (node_run 1 third_open_succeeds pool1)) 1) = 2 \<and>
   node_connected (objs (fst (node_run 1 third_open_succeeds pool1)) 1)"
  by (simp add: node_defs pool_defs)

lemma counter_cleanup: "counter (fst (Node_cleanup i a)) j = counter a j"
  by (simp add: Node_cleanup_def counter_def upd_node_def)

lemma counter_destroy: "counter (fst (snd (Node_destroy c i a))) j = counter a j"
  by (simp add: Node_destroy_def Node_cleanup_def counter_def upd_node_def Let_def split_beta)

lemma counter_reconnect:
  "counter (fst (Node_reconnect i a)) j = (if j = i then counter a j + 1 else counter a j)"
  by (simp add: Node_reconnect_def Node_destroy_def Node_cleanup_def counter_def upd_node_def Let_def split_beta)

lemma counter_flag:
  "counter (upd_node i (\<lambda>n. n\<lparr>node_connected := b\<rparr>) a) j = counter a j"
  "counter (upd_node i (\<lambda>n. n\<lparr>ws := b\<rparr>) a) j = counter a j"
  by (simp_all add: counter_def upd_node_def)

lemma counter_onClose:
  "counter (fst (Node_onClose i a)) j = (if j = i then counter a j + 1 else counter a j)"
  by (simp add: Node_onClose_def split_beta counter_reconnect counter_flag)

lemma counter_onOpen: "counter (fst (Node_onOpen reply i a)) j = counter a j"
  by (simp add: Node_onOpen_def Rest_makeRequest_def counter_def upd_node_def Let_def
      split: option.splits sum.splits)

lemma counter_connect:
  "counter (fst (Node_connect ok i a)) j = (if j = i \<and> \<not> ok then counter a j + 1 else counter a j)"
  by (simp add: Node_connect_def split_beta counter_reconnect counter_cleanup counter_flag)

lemma counter_step: "counter a j \<le> counter (fst (node_step i x a)) j"
  by (cases x)
     (simp_all add: counter_onOpen counter_onClose counter_connect counter_destroy Node_onError_def
        Node_timer_def split_beta)

lemma counter_run: "counter a j \<le> counter (fst (node_run i xs a)) j"
proof (induction xs arbitrary: a)
  case Nil
  then show ?case by simp
next
  case (Cons x xs)
  have "counter a j \<le> counter (fst (node_step i x a)) j"
    by (rule counter_step)
  also have "\<dots> \<le> counter (fst (node_run i xs (fst (node_step i x a)))) j"
    by (rule Cons.IH)
  finally show ?case by (simp add: split_beta)
qed

text \<open>
  What each input does to the attempt counter of every node \<open>j\<close>, exactly: a close
  heard on node \<open>i\<close>, and a \<^verbatim>\<open>connect()\<close> on \<open>i\<close> (called or fired by the retry timer)
  whose socket constructor throws, run \<^verbatim>\<open>#reconnect\<close> once and add one to the counter
  of \<open>i\<close>; nothing else changes any counter.
\<close>

lemma counter_step_exact:
  "counter (fst (node_step i (Open reply) a)) j = counter a j"
  "counter (fst (node_step i SocketError a)) j = counter a j"
  "counter (fst (node_step i Close a)) j = (if j = i \<and> ws (objs a i) then counter a j + 1 else counter a j)"
  "counter (fst (node_step i (Timer ok) a)) j = (if j = i \<and> \<not> ok then counter a j + 1 else counter a j)"
  "counter (fst (node_step i (Connect ok) a)) j = (if j = i \<and> \<not> ok then counter a j + 1 else counter a j)"
  "counter (fst (node_step i (Destroy clean) a)) j = counter a j"
  by (simp_all add: counter_onOpen counter_onClose counter_connect counter_destroy Node_onError_def
      Node_timer_def split_beta)

text \<open>
  C3, amended: a successful open leaves the attempt counter of every node as it was,
  whatever its value (the counter is 0 in a newly constructed node and is never
  reset); no operation decrements it, singly or over a run: each operation leaves it
  unchanged or, when it makes a reconnect attempt (a close that is heard, or a
  \<^verbatim>\<open>connect()\<close> whose socket constructor throws), raises it by exactly one.
\<close>

theorem C3_counter_never_decreases:
  "counter (fst (Node_onOpen reply i a)) j = counter a j \<and>
   counter (fst (node_step i (Open reply) a)) j = counter a j \<and>
   counter (fst (node_step i SocketError a)) j = counter a j \<and>
   counter (fst (node_step i Close a)) j =
     (if j = i \<and> ws (objs a i) then counter a j + 1 else counter a j) \<and>
   counter (fst (node_step i (Timer ok) a)) j =
     (if j = i \<and> \<not> ok then counter a j + 1 else counter a j) \<and>
   counter (fst (node_step i (Connect ok) a)) j =
     (if j = i \<and> \<not> ok then counter a j + 1 else counter a j) \<and>
   counter (fst (node_step i (Destroy clean) a)) j = counter a j \<and>
   counter (fst (Node_reconnect i a)) j = (if j = i then counter a j + 1 else counter a j) \<and>
   counter (fst (snd (Node_destroy clean i a))) j = counter a j \<and>
   counter (fst (Node_cleanup i a)) j = counter a j \<and>
   counter a j \<le> counter (fst (node_step i x a)) j \<and>
   counter (fst (node_step i x a)) j \<le> counter a j + 1 \<and>
   counter a j \<le> counter (fst (node_run i xs a)) j \<and>
   reconnectAttempted (Node_new nm h rs tmo tries) = 0"
proof -
  have up: "counter (fst (node_step i x a)) j \<le> counter a j + 1"
    by (cases x) (simp_all del: node_step.simps add: counter_step_exact)
  show ?thesis
    using up
    by (simp del: node_step.simps add: counter_step_exact counter_onOpen counter_step counter_run
        counter_reconnect counter_destroy counter_cleanup Node_new_def)
qed

section \<open>Node selection (C4)\<close>

lemma insert_sorted_key:
  "insert_sorted (\<lambda>x y. k x - k y) x ys = insort_key k x ys" for k :: "'a \<Rightarrow> int"
  by (induction ys) simp_all

lemma js_sort_key: "js_sort (\<lambda>x y. k x - k y) xs = sort_key k xs" for k :: "'a \<Rightarrow> int"
  by (induction xs) (simp_all add: js_sort_def insert_sorted_key)

lemma leastUsedNodes_sort: "Aqua_leastUsedNodes a = sort_key (node_calls a) (activeNodes a)"
  by (simp add: Aqua_leastUsedNodes_def activeNodes_def js_sort_key Let_def)

lemma power_bound: "(105 / 100 :: real) ^ 100 \<le> 132"
  by (simp add: power_divide)

lemma cpu_term_bound:
  assumes "s \<le> 1"
  shows "js_round ((105 / 100) powr (100 * s) * 10 - 10) \<le> 1310"
proof -
  have "(105 / 100 :: real) powr (100 * s) \<le> (105 / 100) powr 100"
    using assms by (intro powr_mono) simp_all
  also have "\<dots> = (105 / 100) ^ 100"
    by simp
  also have "\<dots> \<le> 132" by (rule power_bound)
  finally have "(105 / 100 :: real) powr (100 * s) * 10 - 10 + 1 / 2 < 1311" by simp
  then show ?thesis
    unfolding js_round_def by (simp add: floor_le_iff)
qed

lemma disconnected_penalty: "\<not> node_connected d \<Longrightarrow> Node_penalties d = 2 ^ 53 - 1"
  by (simp add: Node_penalties_def MAX_SAFE_INTEGER_def)

lemma connected_penalty_bound:
  assumes "node_connected n" "cpu_systemLoad (stats n) \<le> 1"
    and "st_players (stats n) < 2 ^ 50" "frame_deficit (stats n) < 2 ^ 50" "frame_nulled (stats n) < 2 ^ 50"
  shows "Node_penalties n < 2 ^ 53 - 1"
proof -
  have "js_round ((105 / 100) powr (100 * cpu_systemLoad (stats n)) * 10 - 10) \<le> 1310"
    using assms(2) by (rule cpu_term_bound)
  then show ?thesis
    using assms by (simp add: Node_penalties_def Let_def)
qed

text \<open>
  C4, as stated, fails twice. Selection returns the two connected nodes of \<open>pool2\<close> in
  the order of their request counts, with penalties 10 and then 0; and the connected
  node \<open>crowded_node\<close> has a penalty above that of the disconnected \<open>down_node\<close>,
  which is the largest safe integer, not infinity.
\<close>

theorem C4_selection_not_by_penalty:
  "Aqua_leastUsedNodes pool2 = [1, 2] \<and>
   map (\<lambda>i. Node_penalties (objs pool2 i)) (Aqua_leastUsedNodes pool2) = [10, 0] \<and>
   \<not> sorted (map (\<lambda>i. Node_penalties (objs pool2 i)) (Aqua_leastUsedNodes pool2)) \<and>
   \<not> node_connected down_node \<and> node_connected crowded_node \<and>
   Node_penalties down_node = 9007199254740991 \<and>
   Node_penalties crowded_node = 9007199254740992 \<and>
   \<not> Node_penalties crowded_node < Node_penalties down_node"
  by (simp add: Aqua_leastUsedNodes_def js_sort_def node_calls_def pool2_def busy_node_def
      idle_node_def down_node_def crowded_node_def Node_new_def Node_penalties_def createStats_def
      MAX_SAFE_INTEGER_def Let_def)

text \<open>
  C4, amended: selection without a region returns exactly the connected nodes of the
  pool, each once, in ascending order of their request counts, nodes with equal counts
  in insertion order; it never returns a node that is not connected. The penalty of a
  node that is not connected is \<open>2 ^ 53 - 1\<close>, and it is strictly greater than the
  penalty of a connected node whose system load is at most 1 and whose session,
  deficit and nulled-frame counts are each below \<open>2 ^ 50\<close>.
\<close>

theorem C4_selection_by_request_count:
  "sorted (map (node_calls a) (Aqua_leastUsedNodes a)) \<and>
   (\<forall>c. filter (\<lambda>i. node_calls a i = c) (Aqua_leastUsedNodes a) =
        filter (\<lambda>i. node_calls a i = c) (activeNodes a)) \<and>
   set (Aqua_leastUsedNodes a) = {i \<in> snd ` set (nodeMap a). node_connected (objs a i)} \<and>
   length (Aqua_leastUsedNodes a) = length (activeNodes a) \<and>
   list_all (\<lambda>i. node_connected (objs a i)) (Aqua_leastUsedNodes a) \<and>
   (\<not> node_connected d \<longrightarrow> Node_penalties d = 2 ^ 53 - 1) \<and>
   (\<not> node_connected d \<and> node_connected n \<and> cpu_systemLoad (stats n) \<le> 1 \<and>
    st_players (stats n) < 2 ^ 50 \<and> frame_deficit (stats n) < 2 ^ 50 \<and> frame_nulled (stats n) < 2 ^ 50 \<longrightarrow>
      Node_penalties n < Node_penalties d)"
proof (intro conjI allI impI)
  show "sorted (map (node_calls a) (Aqua_leastUsedNodes a))"
    by (simp add: leastUsedNodes_sort)
  show "filter (\<lambda>i. node_calls a i = c) (Aqua_leastUsedNodes a) =
        filter (\<lambda>i. node_calls a i = c) (activeNodes a)" for c
    by (simp add: leastUsedNodes_sort sort_key_stable)
  show "set (Aqua_leastUsedNodes a) = {i \<in> snd ` set (nodeMap a). node_connected (objs a i)}"
    by (auto simp: leastUsedNodes_sort activeNodes_def)
  show "length (Aqua_leastUsedNodes a) = length (activeNodes a)"
    by (simp add: leastUsedNodes_sort)
  show "list_all (\<lambda>i. node_connected (objs a i)) (Aqua_leastUsedNodes a)"
    by (simp add: leastUsedNodes_sort activeNodes_def list_all_iff)
  show "Node_penalties d = 2 ^ 53 - 1" if "\<not> node_connected d"
    using that by (rule disconnected_penalty)
  show "Node_penalties n < Node_penalties d"
    if "\<not> node_connected d \<and> node_connected n \<and> cpu_systemLoad (stats n) \<le> 1 \<and>
        st_players (stats n) < 2 ^ 50 \<and> frame_deficit (stats n) < 2 ^ 50 \<and> frame_nulled (stats n) < 2 ^ 50"
    using that connected_penalty_bound [of n] disconnected_penalty [of d] by simp
qed

theorem C4_selection_by_request_count_witness:
  "\<not> node_connected down_node \<and> node_connected busy_node \<and> cpu_systemLoad (stats busy_node) \<le> 1 \<and>
   st_players (stats busy_node) < 2 ^ 50 \<and> frame_deficit (stats busy_node) < 2 ^ 50 \<and>
   frame_nulled (stats busy_node) < 2 ^ 50 \<and>
   Node_penalties down_node = 2 ^ 53 - 1 \<and>
   Node_penalties busy_node < Node_penalties down_node \<and>
   sorted (map (node_calls pool2) (Aqua_leastUsedNodes pool2)) \<and>
   set (Aqua_leastUsedNodes pool2) = {i \<in> snd ` set (nodeMap pool2). node_connected (objs pool2 i)} \<and>
   list_all (\<lambda>i. node_connected (objs pool2 i)) (Aqua_leastUsedNodes pool2)"
proof -
  have h: "\<not> node_connected down_node" "node_connected busy_node" "cpu_systemLoad (stats busy_node) \<le> 1"
    "st_players (stats busy_node) < 2 ^ 50" "frame_deficit (stats busy_node) < 2 ^ 50"
    "frame_nulled (stats busy_node) < 2 ^ 50"
    by (simp_all add: down_node_def busy_node_def Node_new_def createStats_def)
  show ?thesis
    using h C4_selection_by_request_count [of pool2 down_node busy_node] by blast
qed

section \<open>Normal playback (C5)\<close>

text \<open>
  C5, as stated, fails on the history: the session with queue [A, B] plays A and
  leaves [B]; after the end of A with reason \<^verbatim>\<open>finished\<close> and loop mode none, B is
  current and the queue is empty, but the history buffer is still empty, where
  \<^verbatim>\<open>addToPreviousTrack\<close> would have made it [A].
\<close>

theorem C5_history_not_written:
  "Player_play (session0\<lparr>queue := [TrackRef trackA, TrackRef trackB]\<rparr>) =
     (None, playingA LoopNone [trackB],
      [Emit (Debug ''Playing track: QAAAtokenA''), play_command session0 trackA]) \<and>
   Player_handleEvent True ''TrackEndEvent'' (Some ''finished'') (playingA LoopNone [trackB]) =
     (None, (playingA LoopNone [])\<lparr>current := TrackRef trackB\<rparr>,
      [Emit (Debug ''Playing track: QAAAtokenB''), play_command session0 trackB]) \<and>
   previousTracks (fst (snd (Player_handleEvent True ''TrackEndEvent'' (Some ''finished'')
                               (playingA LoopNone [trackB])))) = [] \<and>
   previousTracks (addToPreviousTrack (TrackRef trackA) (playingA LoopNone [trackB])) = [TrackRef trackA]"
  by (simp add: playback_defs sample_defs addToPreviousTrack_def)

text \<open>
  C5, amended: in a connected session with loop mode none and queue [A, B], both with
  a usable token, \<^verbatim>\<open>play()\<close> makes A current, marks the session playing and leaves
  [B]; the end of A with reason \<^verbatim>\<open>finished\<close> then leaves the history buffer as it was
  (A is not recorded) and invokes \<^verbatim>\<open>play()\<close>, which sends the command to start B; after
  it B is current, the session is playing and the queue is empty.
\<close>

theorem C5_normal_playback:
  assumes "connected p" and "loop p = LoopNone" and "queue p = [TrackRef a, TrackRef b]"
    and "token_truthy a" and "token_truthy b"
  shows "\<exists>p1 e1 p2 e2.
     Player_play p = (None, p1, e1) \<and>
     current p1 = TrackRef a \<and> playing p1 \<and> queue p1 = [TrackRef b] \<and>
     Player_handleEvent True ''TrackEndEvent'' (Some ''finished'') p1 = (None, p2, e2) \<and>
     current p2 = TrackRef b \<and> playing p2 \<and> queue p2 = [] \<and>
     previousTracks p2 = previousTracks p \<and>
     play_command p b \<in> set e2"
  using assms
  by (simp add: Player_play_def Player_handleEvent_def Player_trackEnd_def trackEnd_tail_def
      play_command_def normalize_reason_def to_lower_def Let_def split: prod.splits)

theorem C5_normal_playback_witness:
  "connected (session0\<lparr>queue := [TrackRef trackA, TrackRef trackB]\<rparr>) \<and>
   loop (session0\<lparr>queue := [TrackRef trackA, TrackRef trackB]\<rparr>) = LoopNone \<and>
   token_truthy trackA \<and> token_truthy trackB \<and>
   (\<exists>p1 e1 p2 e2.
     Player_play (session0\<lparr>queue := [TrackRef trackA, TrackRef trackB]\<rparr>) = (None, p1, e1) \<and>
     current p1 = TrackRef trackA \<and> playing p1 \<and> queue p1 = [TrackRef trackB] \<and>
     Player_handleEvent True ''TrackEndEvent'' (Some ''finished'') p1 = (None, p2, e2) \<and>
     current p2 = TrackRef trackB \<and> playing p2 \<and> queue p2 = [] \<and>
     previousTracks p2 = [] \<and>
     play_command session0 trackB \<in> set e2)"
proof -
  have h: "connected (session0\<lparr>queue := [TrackRef trackA, TrackRef trackB]\<rparr>)"
    "loop (session0\<lparr>queue := [TrackRef trackA, TrackRef trackB]\<rparr>) = LoopNone"
    "queue (session0\<lparr>queue := [TrackRef trackA, TrackRef trackB]\<rparr>) = [TrackRef trackA, TrackRef trackB]"
    "token_truthy trackA" "token_truthy trackB"
    by (simp_all add: sample_defs token_truthy_def)
  have g: "previousTracks (session0\<lparr>queue := [TrackRef trackA, TrackRef trackB]\<rparr>) = []"
    "play_command (session0\<lparr>queue := [TrackRef trackA, TrackRef trackB]\<rparr>) trackB = play_command session0 trackB"
    by (simp_all add: sample_defs play_command_def)
  show ?thesis
    using h g C5_normal_playback [OF h] by simp
qed

section \<open>Voice-link throttle (C6)\<close>

lemma gaps_ok_Cons: "gaps_ok (t # xs) = ((xs = [] \<or> hd xs - t \<ge> 1000) \<and> gaps_ok xs)"
  by (cases xs) auto

lemma updateRegion_link:
  "lastUpdateTime (connection (fst (Connection_updateRegion r e k p))) = lastUpdateTime (connection p)"
  "updateThrottle (connection (fst (Connection_updateRegion r e k p))) = updateThrottle (connection p)"
  "player_ref (connection (fst (Connection_updateRegion r e k p))) = player_ref (connection p)"
  "pushes (snd (Connection_updateRegion r e k p)) = 0"
  by (simp_all add: Connection_updateRegion_def Let_def pushes_def)

lemma voice_push_link:
  "lastUpdateTime (connection (fst (Connection_updatePlayerVoiceData t p))) =
     (if t - lastUpdateTime (connection p) \<ge> updateThrottle (connection p) then t
      else lastUpdateTime (connection p))"
  "updateThrottle (connection (fst (Connection_updatePlayerVoiceData t p))) = updateThrottle (connection p)"
  "player_ref (connection (fst (Connection_updatePlayerVoiceData t p))) = player_ref (connection p)"
  "pushes (snd (Connection_updatePlayerVoiceData t p)) =
     (if t - lastUpdateTime (connection p) \<ge> updateThrottle (connection p) \<and> player_ref (connection p)
      then 1 else 0)"
  by (simp_all add: Connection_updatePlayerVoiceData_def Let_def pushes_def)

lemma pushes_append: "pushes (xs @ ys) = pushes xs + pushes ys"
  by (simp add: pushes_def)

lemma setServerUpdate_unusable:
  "\<not> usable e \<Longrightarrow> Connection_setServerUpdate e k t p = (Some MissingEndpoint, p, [])"
  by (cases e) (simp_all add: usable_def Connection_setServerUpdate_def)

lemma setServerUpdate_same_region:
  "e \<noteq> [] \<Longrightarrow> region (connection p) = Some (derive_region e) \<Longrightarrow>
   Connection_setServerUpdate (Some e) k t p =
     (None, fst (Connection_updatePlayerVoiceData t p), snd (Connection_updatePlayerVoiceData t p))"
  by (simp add: Connection_setServerUpdate_def split_beta Let_def)

lemma setServerUpdate_new_region:
  "e \<noteq> [] \<Longrightarrow> region (connection p) \<noteq> Some (derive_region e) \<Longrightarrow>
   Connection_setServerUpdate (Some e) k t p =
     (None,
      fst (Connection_updatePlayerVoiceData t (fst (Connection_updateRegion (derive_region e) e k p))),
      snd (Connection_updateRegion (derive_region e) e k p) @
      snd (Connection_updatePlayerVoiceData t (fst (Connection_updateRegion (derive_region e) e k p))))"
  by (simp add: Connection_setServerUpdate_def split_beta Let_def)

lemma setServerUpdate_link:
  "lastUpdateTime (connection (fst (snd (Connection_setServerUpdate e k t p)))) =
     (if usable e \<and> t - lastUpdateTime (connection p) \<ge> updateThrottle (connection p) then t
      else lastUpdateTime (connection p))"
  "updateThrottle (connection (fst (snd (Connection_setServerUpdate e k t p)))) = updateThrottle (connection p)"
  "player_ref (connection (fst (snd (Connection_setServerUpdate e k t p)))) = player_ref (connection p)"
  "pushes (snd (snd (Connection_setServerUpdate e k t p))) =
     (if usable e \<and> t - lastUpdateTime (connection p) \<ge> updateThrottle (connection p)
         \<and> player_ref (connection p)
      then 1 else 0)"
proof -
  consider (bad) "\<not> usable e"
    | (same) x where "e = Some x" "x \<noteq> []" "region (connection p) = Some (derive_region x)"
    | (new) x where "e = Some x" "x \<noteq> []" "region (connection p) \<noteq> Some (derive_region x)"
    by (cases e) (auto simp: usable_def)
  then have "lastUpdateTime (connection (fst (snd (Connection_setServerUpdate e k t p)))) =
       (if usable e \<and> t - lastUpdateTime (connection p) \<ge> updateThrottle (connection p) then t
        else lastUpdateTime (connection p)) \<and>
     updateThrottle (connection (fst (snd (Connection_setServerUpdate e k t p)))) = updateThrottle (connection p) \<and>
     player_ref (connection (fst (snd (Connection_setServerUpdate e k t p)))) = player_ref (connection p) \<and>
     pushes (snd (snd (Connection_setServerUpdate e k t p))) =
       (if usable e \<and> t - lastUpdateTime (connection p) \<ge> updateThrottle (connection p)
           \<and> player_ref (connection p)
        then 1 else 0)"
  proof cases
    case bad
    then show ?thesis by (simp add: setServerUpdate_unusable pushes_def)
  next
    case same
    then show ?thesis
      by (simp add: setServerUpdate_same_region voice_push_link usable_def)
  next
    case new
    then show ?thesis
      by (simp add: setServerUpdate_new_region voice_push_link updateRegion_link usable_def
          pushes_append)
  qed
  then show
    "lastUpdateTime (connection (fst (snd (Connection_setServerUpdate e k t p)))) =
       (if usable e \<and> t - lastUpdateTime (connection p) \<ge> updateThrottle (connection p) then t
        else lastUpdateTime (connection p))"
    "updateThrottle (connection (fst (snd (Connection_setServerUpdate e k t p)))) = updateThrottle (connection p)"
    "player_ref (connection (fst (snd (Connection_setServerUpdate e k t p)))) = player_ref (connection p)"
    "pushes (snd (snd (Connection_setServerUpdate e k t p))) =
       (if usable e \<and> t - lastUpdateTime (connection p) \<ge> updateThrottle (connection p)
           \<and> player_ref (connection p)
        then 1 else 0)"
    by blast+
qed

lemma push_times_Cons:
  "push_times ((e, k, t) # xs) p =
     (if usable e \<and> t - lastUpdateTime (connection p) \<ge> updateThrottle (connection p)
         \<and> player_ref (connection p)
      then [t] else []) @ push_times xs (fst (snd (Connection_setServerUpdate e k t p)))"
  using setServerUpdate_link(4) [of e k t p]
  by (simp add: split_beta Let_def)

lemma push_times_spaced:
  "updateThrottle (connection p) = 1000 \<Longrightarrow>
   gaps_ok (push_times xs p) \<and> list_all (\<lambda>u. u - lastUpdateTime (connection p) \<ge> 1000) (push_times xs p)"
proof (induction xs arbitrary: p)
  case Nil
  then show ?case by simp
next
  case (Cons x xs)
  obtain e k t where x: "x = (e, k, t)" by (cases x) auto
  let ?p' = "fst (snd (Connection_setServerUpdate e k t p))"
  have th: "updateThrottle (connection ?p') = 1000"
    using Cons.prems by (simp add: setServerUpdate_link)
  note ih = Cons.IH [OF th]
  show ?case
  proof (cases "usable e \<and> t - lastUpdateTime (connection p) \<ge> 1000")
    case True
    then have last: "lastUpdateTime (connection ?p') = t"
      using Cons.prems by (simp add: setServerUpdate_link)
    have all: "list_all (\<lambda>u. u - t \<ge> 1000) (push_times xs ?p')"
      using ih last by simp
    then have hd: "push_times xs ?p' = [] \<or> hd (push_times xs ?p') - t \<ge> 1000"
      by (cases "push_times xs ?p'") auto
    have all2: "list_all (\<lambda>u. u - lastUpdateTime (connection p) \<ge> 1000) (push_times xs ?p')"
      using all True by (auto simp: list_all_iff)
    show ?thesis
      using True Cons.prems ih hd all2 x
      by (auto simp del: push_times.simps(2) simp: push_times_Cons gaps_ok_Cons)
  next
    case False
    then have last: "lastUpdateTime (connection ?p') = lastUpdateTime (connection p)"
      using Cons.prems by (auto simp: setServerUpdate_link)
    show ?thesis
      using False Cons.prems ih last x
      by (auto simp del: push_times.simps(2) simp: push_times_Cons)
  qed
qed

text \<open>
  C6: over any run of server updates, each transmitted push comes at least 1000 after
  the one transmitted before it; a push inside the window changes nothing and sends
  nothing, so it is neither queued nor merged into a later one; and when the first of
  two pushes on a bound link is itself outside the window (a fresh link starts its clock
  at 0 and \<^verbatim>\<open>Date.now()\<close> counts milliseconds since 1970), two pushes 10 apart transmit
  exactly one update and two pushes 1500 apart transmit two.
\<close>

theorem C6_voice_push_throttle:
  "(updateThrottle (connection p) = 1000 \<longrightarrow> gaps_ok (push_times xs p)) \<and>
   (now - lastUpdateTime (connection p) < updateThrottle (connection p) \<longrightarrow>
      Connection_updatePlayerVoiceData now p = (p, [])) \<and>
   (updateThrottle (connection p) = 1000 \<and> player_ref (connection p) \<and>
    t - lastUpdateTime (connection p) \<ge> 1000 \<and> e1 \<noteq> [] \<and> e2 \<noteq> [] \<longrightarrow>
      push_times [(Some e1, k1, t), (Some e2, k2, t + 10)] p = [t] \<and>
      push_times [(Some e1, k1, t), (Some e2, k2, t + 1500)] p = [t, t + 1500])"
proof (intro conjI impI)
  assume "updateThrottle (connection p) = 1000"
  then show "gaps_ok (push_times xs p)"
    using push_times_spaced by blast
next
  assume "now - lastUpdateTime (connection p) < updateThrottle (connection p)"
  then show "Connection_updatePlayerVoiceData now p = (p, [])"
    by (simp add: Connection_updatePlayerVoiceData_def)
next
  assume h: "updateThrottle (connection p) = 1000 \<and> player_ref (connection p) \<and>
    t - lastUpdateTime (connection p) \<ge> 1000 \<and> e1 \<noteq> [] \<and> e2 \<noteq> []"
  then show "push_times [(Some e1, k1, t), (Some e2, k2, t + 10)] p = [t]"
    by (simp del: push_times.simps(2) add: push_times_Cons setServerUpdate_link usable_def)
  from h show "push_times [(Some e1, k1, t), (Some e2, k2, t + 1500)] p = [t, t + 1500]"
    by (simp del: push_times.simps(2) add: push_times_Cons setServerUpdate_link usable_def)
qed

theorem C6_voice_push_throttle_witness:
  "updateThrottle (connection session0) = 1000 \<and> player_ref (connection session0) \<and>
   1700000000000 - lastUpdateTime (connection session0) \<ge> 1000 \<and>
   500 - lastUpdateTime (connection session0) < updateThrottle (connection session0) \<and>
   Connection_updatePlayerVoiceData 500 session0 = (session0, []) \<and>
   gaps_ok (push_times [(Some ''us-east1.discord.gg'', Some ''tok1'', 1700000000000),
                        (Some ''us-east1.discord.gg'', Some ''tok2'', 1700000000010),
                        (Some ''eu-west3.discord.gg'', Some ''tok3'', 1700000001500)] session0) \<and>
   push_times [(Some ''us-east1.discord.gg'', Some ''tok1'', 1700000000000),
               (Some ''us-east1.discord.gg'', Some ''tok2'', 1700000000010)] session0 = [1700000000000] \<and>
   push_times [(Some ''us-east1.discord.gg'', Some ''tok1'', 1700000000000),
               (Some ''us-east1.discord.gg'', Some ''tok2'', 1700000001500)] session0
     = [1700000000000, 1700000001500]"
proof -
  have h: "updateThrottle (connection session0) = 1000" "player_ref (connection session0)"
    "1700000000000 - lastUpdateTime (connection session0) \<ge> 1000"
    "500 - lastUpdateTime (connection session0) < updateThrottle (connection session0)"
    by (simp_all add: session0_def Player_new_def Connection_new_def)
  show ?thesis
    using h
      C6_voice_push_throttle [of session0
        "[(Some ''us-east1.discord.gg'', Some ''tok1'', 1700000000000),
          (Some ''us-east1.discord.gg'', Some ''tok2'', 1700000000010),
          (Some ''eu-west3.discord.gg'', Some ''tok3'', 1700000001500)]"
        500 1700000000000 "''us-east1.discord.gg''" "''us-east1.discord.gg''" "Some ''tok1''" "Some ''tok2''"]
    by simp
qed

section \<open>Skip (C7)\<close>

text \<open>
  C7, as stated, fails: the session plays A with B pending. \<^verbatim>\<open>skip()\<close> sends the
  clear-track command and clears the playing flag, and that is all: B is still in the
  queue, A is still current, no command to start B goes out, and the outcome differs
  from that of \<^verbatim>\<open>stop()\<close> followed by \<^verbatim>\<open>play()\<close>.
\<close>

theorem C7_skip_does_not_play:
  "queue (playingA LoopNone [trackB]) \<noteq> [] \<and>
   Player_skip (playingA LoopNone [trackB]) =
     (None, (playingA LoopNone [trackB])\<lparr>playing := False\<rparr>,
      [UpdatePlayerCall (Some ''g1'') clear_track]) \<and>
   Player_skip (playingA LoopNone [trackB]) \<noteq> stop_then_play (playingA LoopNone [trackB])"
  by (simp add: playback_defs sample_defs)

text \<open>
  C7, amended: \<^verbatim>\<open>skip()\<close> performs \<^verbatim>\<open>stop()\<close> and then invokes \<^verbatim>\<open>play()\<close> only if the
  session is still marked playing afterwards; \<^verbatim>\<open>stop()\<close> always leaves the flag clear, so
  \<^verbatim>\<open>skip()\<close> never invokes \<^verbatim>\<open>play()\<close>: it does exactly what \<^verbatim>\<open>stop()\<close> does and leaves the
  queue and the current track as they were, whether the queue is empty or not.
\<close>

theorem C7_skip_is_stop:
  "Player_skip p = (None, fst (Player_stop p), snd (Player_stop p)) \<and>
   \<not> playing (fst (Player_stop p)) \<and>
   \<not> playing (fst (snd (Player_skip p))) \<and>
   queue (fst (snd (Player_skip p))) = queue p \<and>
   current (fst (snd (Player_skip p))) = current p"
  by (simp add: Player_skip_def Player_stop_def)

section \<open>Conflicting patches (C8)\<close>

lemma makeRequest_issues_one:
  "http_requests (snd (snd (Rest_makeRequest m e b reply r))) = 1"
  by (simp add: Rest_makeRequest_def http_requests_def Let_def split: option.splits)

lemma makeRequest_not_conflict:
  "fst (Rest_makeRequest m e b reply r) \<noteq> Inl ConflictingTrackFields"
  by (simp add: Rest_makeRequest_def Let_def split: option.splits)

lemma updatePlayer_conflict:
  "track_conflict data \<Longrightarrow> Rest_updatePlayer g data reply r = (Inl ConflictingTrackFields, r, [])"
  by (simp add: Rest_updatePlayer_def)

lemma updatePlayer_no_conflict:
  assumes "\<not> track_conflict data"
  shows "\<not> rejected (Rest_updatePlayer g data reply r)"
    and "http_requests (snd (snd (Rest_updatePlayer g data reply r))) = 1"
  using assms
  by (simp_all add: Rest_updatePlayer_def rejected_def Let_def makeRequest_issues_one
      makeRequest_not_conflict)

lemma conflict_needs_both: "track_conflict data \<Longrightarrow> has_encoded data \<and> has_identifier data"
  by (auto simp: track_conflict_def has_encoded_def has_identifier_def track_encoded_def
      track_identifier_def top_encoded_def top_identifier_def)

text \<open>
  C8, as stated, fails: the patch \<open>mixed_patch\<close> carries an encoded token inside \<^verbatim>\<open>track\<close>
  and an identifier at the top. The check pairs the fields spelling by spelling, so
  the patch is not rejected and the PATCH request goes out with both fields in it.
\<close>

theorem C8_mixed_patch_not_rejected:
  "has_encoded mixed_patch \<and> has_identifier mixed_patch \<and>
   Rest_updatePlayer ''g1'' mixed_patch (Some JNull) rest_v4 =
     (Inr JNull, rest_v4\<lparr>calls := 1\<rparr>,
      [HttpRequest ''PATCH'' ''http://localhost:2333/v4/sessions/s1/players/g1?noReplace=false''
         (JObj mixed_patch),
       Emit (ApiResponse ''/v4/sessions/s1/players/g1?noReplace=false'')])"
  by (simp add: has_encoded_def has_identifier_def track_encoded_def track_identifier_def
      top_encoded_def top_identifier_def mixed_patch_def Rest_updatePlayer_def track_conflict_def
      Rest_makeRequest_def rest_v4_def show_opt_def)

text \<open>
  C8, amended: a patch in which a non-empty encoded track token and a non-empty
  identifier are present in the same spelling (both inside \<^verbatim>\<open>track\<close>, or both at the top
  as \<^verbatim>\<open>encodedTrack\<close> and \<^verbatim>\<open>identifier\<close>) is rejected with the caller error before any
  request is attempted, and the transport state is untouched; a patch with at most one
  of the two fields, in whatever spelling, is not rejected and its request is issued.
\<close>

theorem C8_conflicting_patch_rejected:
  "((track_encoded data \<and> track_identifier data) \<or> (top_encoded data \<and> top_identifier data) \<longrightarrow>
      Rest_updatePlayer g data reply r = (Inl ConflictingTrackFields, r, []) \<and>
      http_requests (snd (snd (Rest_updatePlayer g data reply r))) = 0) \<and>
   (\<not> (has_encoded data \<and> has_identifier data) \<longrightarrow>
      \<not> rejected (Rest_updatePlayer g data reply r) \<and>
      http_requests (snd (snd (Rest_updatePlayer g data reply r))) = 1)"
proof (intro conjI impI)
  assume both: "(track_encoded data \<and> track_identifier data) \<or> (top_encoded data \<and> top_identifier data)"
  then have c: "track_conflict data"
    by (simp add: track_conflict_def track_encoded_def track_identifier_def top_encoded_def
        top_identifier_def)
  show "Rest_updatePlayer g data reply r = (Inl ConflictingTrackFields, r, [])"
    by (rule updatePlayer_conflict [OF c])
  then show "http_requests (snd (snd (Rest_updatePlayer g data reply r))) = 0"
    by (simp add: http_requests_def)
next
  assume one: "\<not> (has_encoded data \<and> has_identifier data)"
  then have nc: "\<not> track_conflict data"
    using conflict_needs_both by blast
  show "\<not> rejected (Rest_updatePlayer g data reply r)"
    by (rule updatePlayer_no_conflict(1) [OF nc])
  show "http_requests (snd (snd (Rest_updatePlayer g data reply r))) = 1"
    by (rule updatePlayer_no_conflict(2) [OF nc])
qed

theorem C8_conflicting_patch_rejected_witness:
  "track_encoded both_in_track \<and> track_identifier both_in_track \<and>
   Rest_updatePlayer ''g1'' both_in_track (Some JNull) rest_v4 = (Inl ConflictingTrackFields, rest_v4, []) \<and>
   \<not> (has_encoded only_encoded \<and> has_identifier only_encoded) \<and>
   \<not> rejected (Rest_updatePlayer ''g1'' only_encoded (Some JNull) rest_v4) \<and>
   http_requests (snd (snd (Rest_updatePlayer ''g1'' only_encoded (Some JNull) rest_v4))) = 1"
proof -
  have a: "track_encoded both_in_track \<and> track_identifier both_in_track"
    by (simp add: track_encoded_def track_identifier_def both_in_track_def)
  have b: "\<not> (has_encoded only_encoded \<and> has_identifier only_encoded)"
    by (simp add: has_encoded_def has_identifier_def track_encoded_def track_identifier_def
        top_encoded_def top_identifier_def only_encoded_def)
  show ?thesis
    using a b
      C8_conflicting_patch_rejected [of both_in_track "''g1''" "Some JNull" rest_v4]
      C8_conflicting_patch_rejected [of only_encoded "''g1''" "Some JNull" rest_v4]
    by blast
qed

section \<open>Server updates in the same region (C9)\<close>

text \<open>
  C9: a server update with an endpoint (an empty one is refused as missing) that
  derives the region already recorded leaves the
  stored endpoint and token (and the whole credential set) as they were, and still
  attempts the throttled push, which carries the old credentials; a server update that
  changes the derived region writes the new endpoint and token.
\<close>

theorem C9_same_region_keeps_credentials:
  "(e \<noteq> [] \<and> region (connection p) = Some (derive_region e) \<longrightarrow>
      fst (Connection_setServerUpdate (Some e) k now p) = None \<and>
      voice (connection (fst (snd (Connection_setServerUpdate (Some e) k now p)))) = voice (connection p) \<and>
      region (connection (fst (snd (Connection_setServerUpdate (Some e) k now p)))) = region (connection p) \<and>
      snd (snd (Connection_setServerUpdate (Some e) k now p)) =
        (if now - lastUpdateTime (connection p) \<ge> updateThrottle (connection p) \<and> player_ref (connection p)
         then [voice_push p] else [])) \<and>
   (e \<noteq> [] \<and> region (connection p) \<noteq> Some (derive_region e) \<longrightarrow>
      fst (Connection_setServerUpdate (Some e) k now p) = None \<and>
      voice (connection (fst (snd (Connection_setServerUpdate (Some e) k now p)))) =
        (voice (connection p))\<lparr>voice_endpoint := Some e, voice_token := k\<rparr> \<and>
      region (connection (fst (snd (Connection_setServerUpdate (Some e) k now p)))) = Some (derive_region e))"
proof (intro conjI impI)
  assume h: "e \<noteq> [] \<and> region (connection p) = Some (derive_region e)"
  then have eq: "Connection_setServerUpdate (Some e) k now p =
      (None, fst (Connection_updatePlayerVoiceData now p), snd (Connection_updatePlayerVoiceData now p))"
    by (simp add: setServerUpdate_same_region)
  show "fst (Connection_setServerUpdate (Some e) k now p) = None"
    by (simp add: eq)
  show "voice (connection (fst (snd (Connection_setServerUpdate (Some e) k now p)))) = voice (connection p)"
    by (simp add: eq Connection_updatePlayerVoiceData_def Let_def)
  show "region (connection (fst (snd (Connection_setServerUpdate (Some e) k now p)))) = region (connection p)"
    by (simp add: eq Connection_updatePlayerVoiceData_def Let_def)
  show "snd (snd (Connection_setServerUpdate (Some e) k now p)) =
        (if now - lastUpdateTime (connection p) \<ge> updateThrottle (connection p) \<and> player_ref (connection p)
         then [voice_push p] else [])"
    by (simp add: eq Connection_updatePlayerVoiceData_def Let_def voice_push_def)
next
  assume h: "e \<noteq> [] \<and> region (connection p) \<noteq> Some (derive_region e)"
  then have eq: "Connection_setServerUpdate (Some e) k now p =
     (None,
      fst (Connection_updatePlayerVoiceData now (fst (Connection_updateRegion (derive_region e) e k p))),
      snd (Connection_updateRegion (derive_region e) e k p) @
      snd (Connection_updatePlayerVoiceData now (fst (Connection_updateRegion (derive_region e) e k p))))"
    by (simp add: setServerUpdate_new_region)
  show "fst (Connection_setServerUpdate (Some e) k now p) = None"
    by (simp add: eq)
  show "voice (connection (fst (snd (Connection_setServerUpdate (Some e) k now p)))) =
        (voice (connection p))\<lparr>voice_endpoint := Some e, voice_token := k\<rparr>"
    by (simp add: eq Connection_updatePlayerVoiceData_def Connection_updateRegion_def Let_def)
  show "region (connection (fst (snd (Connection_setServerUpdate (Some e) k now p)))) = Some (derive_region e)"
    by (simp add: eq Connection_updatePlayerVoiceData_def Connection_updateRegion_def Let_def)
qed

lemma linked_facts:
  "region (connection linked) = Some ''us-east''"
  "voice (connection linked) =
     \<lparr>voice_sessionId = Some ''sess1'', voice_endpoint = Some ''us-east1.discord.gg'',
      voice_token = Some ''tokenOld''\<rparr>"
  "lastUpdateTime (connection linked) = 0" "updateThrottle (connection linked) = 1000"
  "player_ref (connection linked)"
  by (simp_all add: linked_def session0_def Player_new_def Connection_new_def)

theorem C9_same_region_keeps_credentials_witness:
  "''us-east42.discord.gg'' \<noteq> [] \<and>
   region (connection linked) = Some (derive_region ''us-east42.discord.gg'') \<and>
   voice_endpoint (voice (connection (fst (snd (Connection_setServerUpdate (Some ''us-east42.discord.gg'')
      (Some ''tokenNew'') 1700000000000 linked))))) = Some ''us-east1.discord.gg'' \<and>
   voice_token (voice (connection (fst (snd (Connection_setServerUpdate (Some ''us-east42.discord.gg'')
      (Some ''tokenNew'') 1700000000000 linked))))) = Some ''tokenOld'' \<and>
   snd (snd (Connection_setServerUpdate (Some ''us-east42.discord.gg'') (Some ''tokenNew'')
      1700000000000 linked)) = [voice_push linked] \<and>
   region (connection linked) \<noteq> Some (derive_region ''eu-west3.discord.gg'') \<and>
   voice_endpoint (voice (connection (fst (snd (Connection_setServerUpdate (Some ''eu-west3.discord.gg'')
      (Some ''tokenNew'') 1700000000000 linked))))) = Some ''eu-west3.discord.gg'' \<and>
   voice_token (voice (connection (fst (snd (Connection_setServerUpdate (Some ''eu-west3.discord.gg'')
      (Some ''tokenNew'') 1700000000000 linked))))) = Some ''tokenNew''"
proof -
  have a: "region (connection linked) = Some (derive_region ''us-east42.discord.gg'')"
    by (simp add: linked_facts derive_region_def)
  have b: "region (connection linked) \<noteq> Some (derive_region ''eu-west3.discord.gg'')"
    by (simp add: linked_facts derive_region_def)
  show ?thesis
    using a b
      C9_same_region_keeps_credentials [of "''us-east42.discord.gg''" linked "Some ''tokenNew''" 1700000000000]
      C9_same_region_keeps_credentials [of "''eu-west3.discord.gg''" linked "Some ''tokenNew''" 1700000000000]
    by (simp add: linked_facts)
qed

section \<open>The per-session store (C10)\<close>

lemma destroy_dataStore: "dataStore (fst (Player_destroy p)) = dataStore p"
  by (simp add: Player_destroy_def)

lemma voice_push_dataStore: "dataStore (fst (Connection_updatePlayerVoiceData now p)) = dataStore p"
  by (simp add: Connection_updatePlayerVoiceData_def Let_def)

lemma updateRegion_dataStore: "dataStore (fst (Connection_updateRegion r e t p)) = dataStore p"
  by (simp add: Connection_updateRegion_def Let_def)

lemma setServerUpdate_dataStore:
  "dataStore (fst (snd (Connection_setServerUpdate e t now p))) = dataStore p"
proof (cases e)
  case None
  then show ?thesis by (simp add: Connection_setServerUpdate_def)
next
  case (Some x)
  show ?thesis
  proof (cases "region (connection p) \<noteq> Some (derive_region x)")
    case True
    with Some show ?thesis
      by (simp add: Connection_setServerUpdate_def Let_def voice_push_dataStore
          updateRegion_dataStore split: prod.splits)
         (metis fst_conv updateRegion_dataStore voice_push_dataStore)
  next
    case False
    with Some show ?thesis
      by (simp add: Connection_setServerUpdate_def Let_def split: prod.splits)
         (metis fst_conv voice_push_dataStore)
  qed
qed

lemma conn_cleanup_dataStore: "dataStore (fst (Connection_cleanup p)) = dataStore p"
proof (cases "player_ref (connection p)")
  case True
  then show ?thesis
    by (simp add: Connection_cleanup_def Let_def split: prod.splits)
       (metis destroy_dataStore fst_conv)
next
  case False
  then show ?thesis by (simp add: Connection_cleanup_def)
qed

lemma step_keeps_undefined:
  assumes "dataStore p = None"
  shows "dataStore (session_step x p) = None"
proof (cases x)
  case (OpServerUpdate e t now)
  with assms show ?thesis by (simp add: setServerUpdate_dataStore)
next
  case (OpStateUpdate ch sid df mt)
  with assms show ?thesis
    by (auto simp: Connection_setStateUpdate_def Let_def conn_cleanup_dataStore split: option.splits)
qed (use assms in \<open>auto simp: Player_connect_def Player_play_def Player_stop_def Player_skip_def
      Player_pause_def Player_destroy_def Player_set_def Let_def split: list.splits jsref.splits\<close>)

lemma run_keeps_undefined:
  "dataStore p = None \<Longrightarrow> dataStore (session_run xs p) = None"
  by (induction xs arbitrary: p) (simp_all add: step_keeps_undefined)

text \<open>
  C10, as stated, fails in its last part: after \<^verbatim>\<open>clearData()\<close> the store is a
  \<^verbatim>\<open>WeakMap\<close>, and \<^verbatim>\<open>set\<close> with a string key raises.
\<close>

theorem C10_primitive_key_rejected:
  "Player_set (Prim (PStr ''autoplay'')) (Prim (PBool True)) (Player_clearData session0) =
     Inl (TypeError ''invalid value used as weak map key'')"
  by (simp add: Player_set_def Player_clearData_def)

text \<open>
  C10, amended: in a freshly constructed session, and after any run of the
  operations that do not reach \<^verbatim>\<open>clearData()\<close>, every \<^verbatim>\<open>set(key, value)\<close> and every
  \<^verbatim>\<open>get(key)\<close> raises, because the private store is still undefined. After
  \<^verbatim>\<open>clearData()\<close>, \<^verbatim>\<open>set\<close> followed by \<^verbatim>\<open>get\<close> on the same key succeeds and returns the
  value when the key is one that a \<^verbatim>\<open>WeakMap\<close> can hold, such as an object; with a
  string key \<^verbatim>\<open>set\<close> still raises.
\<close>

theorem C10_store_uninitialised:
  "Player_set k v (session_run ops (Player_new nd gid vc)) =
     Inl (TypeError ''cannot read property set of undefined'') \<and>
   Player_get k (session_run ops (Player_new nd gid vc)) =
     Inl (TypeError ''cannot read property get of undefined'') \<and>
   (can_be_held_weakly key \<longrightarrow>
      (\<exists>p'. Player_set key v (Player_clearData p) = Inr p' \<and> Player_get key p' = Inr v)) \<and>
   Player_set (Prim (PStr s)) v (Player_clearData p) =
     Inl (TypeError ''invalid value used as weak map key'')"
proof -
  have "dataStore (session_run ops (Player_new nd gid vc)) = None"
    by (rule run_keeps_undefined) (simp add: Player_new_def)
  then show ?thesis
    by (simp add: Player_set_def Player_get_def Player_clearData_def)
qed

theorem C10_store_uninitialised_witness:
  "can_be_held_weakly (ObjRef 7) \<and>
   Player_set (ObjRef 7) (Prim (PNum 3)) (Player_new 1 (Some ''g1'') (Some ''vc1'')) =
     Inl (TypeError ''cannot read property set of undefined'') \<and>
   Player_get (ObjRef 7) (session_run [OpConnect ''g1'' ''vc1'' True False, OpPlay, OpSkip]
       (Player_new 1 (Some ''g1'') (Some ''vc1''))) =
     Inl (TypeError ''cannot read property get of undefined'') \<and>
   (\<exists>p'. Player_set (ObjRef 7) (Prim (PNum 3)) (Player_clearData session0) = Inr p' \<and>
         Player_get (ObjRef 7) p' = Inr (Prim (PNum 3)))"
proof -
  have h: "can_be_held_weakly (ObjRef 7)" by simp
  show ?thesis
    using h
      C10_store_uninitialised [of "ObjRef 7" "Prim (PNum 3)" "[]" 1 "Some ''g1''" "Some ''vc1''"
        "ObjRef 7" session0 "''x''"]
      C10_store_uninitialised [of "ObjRef 7" "Prim (PNum 3)"
        "[OpConnect ''g1'' ''vc1'' True False, OpPlay, OpSkip]" 1 "Some ''g1''" "Some ''vc1''"
        "ObjRef 7" session0 "''x''"]
    by simp
qed

end
